theory Spec2Isabelle
  imports Main
begin

section \<open>Exceptions\<close>

text \<open>
  A Python exception is a class together with its message (what \<open>str(e)\<close> prints).
  \<open>FileNotFoundError\<close> and \<open>PermissionError\<close> are subclasses of \<open>OSError\<close>; every class
  below is a subclass of \<open>Exception\<close>.
\<close>

datatype exc_class =
  FileNotFoundError | PermissionError | OSError | ValueError | RuntimeError | OtherException

type_synonym exception = "exc_class \<times> string"

section \<open>The registry (module \<open>winreg\<close>)\<close>

text \<open>
  A registry key holds a default value and an ordered list of named sub-keys; the order is
  the enumeration order of \<open>EnumKey\<close>. A name is looked up at its first entry.
  An open handle is the absolute path of its key below \<open>HKEY_CURRENT_USER\<close>; a
  \<open>sub_key\<close> string such as \<open>Software\\Classes\\.pmeprj\<close> is the list of its components.
  The registry state also records the keys removed by \<open>DeleteKey\<close>, in order.
  Operations fail exactly for the structural reasons of the Windows API: a missing key,
  an index out of range, the deletion of a key that still has sub-keys. Access rights are
  not modelled: the program works below the user's own \<open>Software\\Classes\<close>.
\<close>

datatype regkey = RegKey (default_value: "string option") (subkeys: "(string \<times> regkey) list")

type_synonym hkey = "string list"

record registry =
  hkcu :: regkey
  deleted :: "hkey list"

definition HKEY_CURRENT_USER :: hkey where
  "HKEY_CURRENT_USER = []"

definition child :: "regkey \<Rightarrow> string \<Rightarrow> regkey option" where
  "child k n = map_of (subkeys k) n"

fun put_first :: "string \<Rightarrow> regkey \<Rightarrow> (string \<times> regkey) list \<Rightarrow> (string \<times> regkey) list" where
  "put_first n c [] = [(n, c)]"
| "put_first n c ((m, d) # ks) = (if m = n then (n, c) # ks else (m, d) # put_first n c ks)"

fun del_first :: "string \<Rightarrow> (string \<times> regkey) list \<Rightarrow> (string \<times> regkey) list" where
  "del_first n [] = []"
| "del_first n ((m, d) # ks) = (if m = n then ks else (m, d) # del_first n ks)"

primrec lookup :: "hkey \<Rightarrow> regkey \<Rightarrow> regkey option" where
  "lookup [] k = Some k"
| "lookup (n # p) k = (case child k n of None \<Rightarrow> None | Some c \<Rightarrow> lookup p c)"

primrec modify_at :: "hkey \<Rightarrow> (regkey \<Rightarrow> regkey) \<Rightarrow> regkey \<Rightarrow> regkey" where
  "modify_at [] f k = f k"
| "modify_at (n # p) f k =
     (case child k n of
        None \<Rightarrow> k
      | Some c \<Rightarrow> RegKey (default_value k) (put_first n (modify_at p f c) (subkeys k)))"

definition drop_subkey :: "string \<Rightarrow> regkey \<Rightarrow> regkey" where
  "drop_subkey n k = RegKey (default_value k) (del_first n (subkeys k))"

definition remove_key :: "hkey \<Rightarrow> regkey \<Rightarrow> regkey" where
  "remove_key p k = (if p = [] then k else modify_at (butlast p) (drop_subkey (last p)) k)"

primrec create_key :: "hkey \<Rightarrow> regkey \<Rightarrow> regkey" where
  "create_key [] k = k"
| "create_key (n # p) k =
     RegKey (default_value k)
       (put_first n (create_key p (case child k n of None \<Rightarrow> RegKey None [] | Some c \<Rightarrow> c))
          (subkeys k))"

definition OpenKey :: "hkey \<Rightarrow> string list \<Rightarrow> registry \<Rightarrow> exception + hkey" where
  "OpenKey key sub_key reg =
     (case lookup (key @ sub_key) (hkcu reg) of
        None \<Rightarrow> Inl (FileNotFoundError, ''The system cannot find the file specified'')
      | Some k \<Rightarrow> Inr (key @ sub_key))"

definition QueryInfoKey :: "hkey \<Rightarrow> registry \<Rightarrow> exception + nat" where
  "QueryInfoKey key reg =
     (case lookup key (hkcu reg) of
        None \<Rightarrow> Inl (OSError, ''The handle is invalid'')
      | Some k \<Rightarrow> Inr (length (subkeys k)))"

definition EnumKey :: "hkey \<Rightarrow> nat \<Rightarrow> registry \<Rightarrow> exception + string" where
  "EnumKey key i reg =
     (case lookup key (hkcu reg) of
        None \<Rightarrow> Inl (OSError, ''The handle is invalid'')
      | Some k \<Rightarrow>
          (if i < length (subkeys k) then Inr (fst (subkeys k ! i))
           else Inl (OSError, ''No more data is available'')))"

definition DeleteKey :: "hkey \<Rightarrow> string list \<Rightarrow> registry \<Rightarrow> exception + registry" where
  "DeleteKey key sub_key reg =
     (case lookup (key @ sub_key) (hkcu reg) of
        None \<Rightarrow> Inl (FileNotFoundError, ''The system cannot find the file specified'')
      | Some k \<Rightarrow>
          (if subkeys k \<noteq> [] \<or> key @ sub_key = [] then Inl (PermissionError, ''Access is denied'')
           else Inr (reg\<lparr>hkcu := remove_key (key @ sub_key) (hkcu reg),
                         deleted := deleted reg @ [key @ sub_key]\<rparr>)))"

definition CreateKey :: "hkey \<Rightarrow> string list \<Rightarrow> registry \<Rightarrow> exception + hkey \<times> registry" where
  "CreateKey key sub_key reg =
     (case lookup key (hkcu reg) of
        None \<Rightarrow> Inl (OSError, ''The handle is invalid'')
      | Some k \<Rightarrow> Inr (key @ sub_key, reg\<lparr>hkcu := create_key (key @ sub_key) (hkcu reg)\<rparr>))"

definition SetValue :: "hkey \<Rightarrow> string \<Rightarrow> registry \<Rightarrow> exception + registry" where
  "SetValue key v reg =
     (case lookup key (hkcu reg) of
        None \<Rightarrow> Inl (OSError, ''The handle is invalid'')
      | Some k \<Rightarrow> Inr (reg\<lparr>hkcu := modify_at key (\<lambda>k. RegKey (Some v) (subkeys k)) (hkcu reg)\<rparr>))"

subsection \<open>\<open>delete_registry_tree\<close> (main.py, lines 157-177)\<close>

text \<open>
  The \<open>for\<close> loop runs \<open>info[0]\<close> times, the number of sub-keys read once before the loop;
  each round asks for the sub-key at index 0 again and deletes its tree, ignoring the
  result. Any exception inside the \<open>try\<close> makes the function return \<open>False\<close>, with the
  registry as the operations before it left it.
\<close>

function (domintros) delete_registry_tree :: "hkey \<Rightarrow> string list \<Rightarrow> registry \<Rightarrow> bool \<times> registry"
  and delete_subkeys :: "nat \<Rightarrow> hkey \<Rightarrow> registry \<Rightarrow> (exception + unit) \<times> registry"
where
  "delete_registry_tree key sub_key reg =
     (case OpenKey key sub_key reg of
        Inl e \<Rightarrow> (False, reg)
      | Inr current_key \<Rightarrow>
          (case QueryInfoKey current_key reg of
             Inl e \<Rightarrow> (False, reg)
           | Inr n \<Rightarrow>
               (case delete_subkeys n current_key reg of
                  (Inl e, reg') \<Rightarrow> (False, reg')
                | (Inr u, reg') \<Rightarrow>
                    (case DeleteKey key sub_key reg' of
                       Inl e \<Rightarrow> (False, reg')
                     | Inr reg'' \<Rightarrow> (True, reg'')))))"
| "delete_subkeys 0 current_key reg = (Inr (), reg)"
| "delete_subkeys (Suc i) current_key reg =
     (case EnumKey current_key 0 reg of
        Inl e \<Rightarrow> (Inl e, reg)
      | Inr subkey_name \<Rightarrow>
          (case delete_registry_tree current_key [subkey_name] reg of
             (ok, reg') \<Rightarrow> delete_subkeys i current_key reg'))"
  by pat_completeness auto

text \<open>The keys of a tree in the order a depth-first deletion removes them: children first.\<close>

fun postorder :: "hkey \<Rightarrow> regkey \<Rightarrow> hkey list" where
  "postorder p (RegKey v ks) = concat (map (\<lambda>(n, c). postorder (p @ [n]) c) ks) @ [p]"

definition drop_subkeys :: "nat \<Rightarrow> regkey \<Rightarrow> regkey" where
  "drop_subkeys n k = RegKey (default_value k) (drop n (subkeys k))"

definition postorder_subkeys :: "hkey \<Rightarrow> (string \<times> regkey) list \<Rightarrow> hkey list" where
  "postorder_subkeys p ks = concat (map (\<lambda>(n, c). postorder (p @ [n]) c) ks)"

fun wf_regkey :: "regkey \<Rightarrow> bool" where
  "wf_regkey (RegKey v ks) = (distinct (map fst ks) \<and> list_all (\<lambda>(n, c). wf_regkey c) ks)"

subsection \<open>Facts about the registry operations, and termination\<close>

lemma child_put_first: "map_of (put_first n c ks) n = Some c"
  by (induction n c ks rule: put_first.induct) auto

lemma put_first_put_first: "put_first n c (put_first n d ks) = put_first n c ks"
  by (induction n d ks rule: put_first.induct) auto

lemma del_first_put_first:
  "map_of ks n \<noteq> None \<Longrightarrow> del_first n (put_first n c ks) = del_first n ks"
  by (induction n c ks rule: put_first.induct) auto

lemma lookup_append:
  "lookup (p @ q) k = (case lookup p k of None \<Rightarrow> None | Some c \<Rightarrow> lookup q c)"
  by (induction p arbitrary: k) (auto split: option.splits)

lemma modify_at_append: "modify_at (p @ q) f k = modify_at p (modify_at q f) k"
  by (induction p arbitrary: k) (auto split: option.splits)

lemma lookup_modify_at:
  "lookup p k = Some c \<Longrightarrow> lookup p (modify_at p f k) = Some (f c)"
  by (induction p arbitrary: k) (auto simp: child_def child_put_first split: option.splits)

lemma modify_at_modify_at: "modify_at p g (modify_at p f k) = modify_at p (\<lambda>c. g (f c)) k"
  by (induction p arbitrary: k)
     (auto simp: child_def child_put_first put_first_put_first split: option.splits)

lemma modify_at_agree:
  "lookup p k = Some c \<Longrightarrow> f c = g c \<Longrightarrow> modify_at p f k = modify_at p g k"
  by (induction p arbitrary: k) (auto split: option.splits)

lemma put_first_same: "map_of ks n = Some c \<Longrightarrow> put_first n c ks = ks"
  by (induction n c ks rule: put_first.induct) (auto split: if_splits)

lemma modify_at_same: "lookup p k = Some c \<Longrightarrow> f c = c \<Longrightarrow> modify_at p f k = k"
  by (induction p arbitrary: k) (auto simp: child_def put_first_same split: option.splits)

lemma drop_subkeys_0: "drop_subkeys 0 k = k"
  by (simp add: drop_subkeys_def)

lemma remove_key_snoc: "remove_key (p @ [n]) k = modify_at p (drop_subkey n) k"
  by (simp add: remove_key_def)

lemma drop_subkey_modify_child:
  "drop_subkey n (modify_at [n] f k) = drop_subkey n k"
  by (auto simp: drop_subkey_def child_def del_first_put_first split: option.splits)

lemma remove_key_modify_at:
  "p \<noteq> [] \<Longrightarrow> remove_key p (modify_at p f k) = remove_key p k"
proof -
  assume "p \<noteq> []"
  then have p: "p = butlast p @ [last p]" by simp
  have "remove_key p (modify_at p f k)
      = modify_at (butlast p) (drop_subkey (last p)) (modify_at (butlast p @ [last p]) f k)"
    using \<open>p \<noteq> []\<close> by (simp add: remove_key_def)
  also have "\<dots> = modify_at (butlast p) (\<lambda>c. drop_subkey (last p) (modify_at [last p] f c)) k"
    by (simp only: modify_at_append modify_at_modify_at)
  also have "\<dots> = modify_at (butlast p) (drop_subkey (last p)) k"
    by (simp only: drop_subkey_modify_child)
  finally show ?thesis using \<open>p \<noteq> []\<close> by (simp add: remove_key_def)
qed

lemma size_child: "map_of ks n = Some c \<Longrightarrow> size c < Suc (size_list (size_prod (\<lambda>_. 0) size) ks)"
  by (induction ks) (auto split: if_splits)

lemma child_size: "child k n = Some c \<Longrightarrow> size c < size k"
  by (cases k) (auto simp: child_def dest: size_child)

definition size_at :: "hkey \<Rightarrow> regkey \<Rightarrow> nat" where
  "size_at p k = (case lookup p k of None \<Rightarrow> 0 | Some c \<Rightarrow> size c)"

lemma first_child:
  "subkeys k \<noteq> [] \<Longrightarrow> child k (fst (subkeys k ! 0)) = Some (snd (subkeys k ! 0))"
  by (cases "subkeys k") (auto simp: child_def)

lemma drop_first_child:
  "subkeys k \<noteq> [] \<Longrightarrow> drop_subkey (fst (subkeys k ! 0)) k = drop_subkeys 1 k"
  by (cases "subkeys k") (auto simp: drop_subkey_def drop_subkeys_def)

lemma postorder_eq: "postorder p k = postorder_subkeys p (subkeys k) @ [p]"
  by (cases k) (simp add: postorder_subkeys_def)

lemma delete_partial:
  "delete_registry_tree_delete_subkeys_dom (Inl (key, sub_key, reg)) \<Longrightarrow>
     (\<forall>k. lookup (key @ sub_key) (hkcu reg) = Some k \<and> key @ sub_key \<noteq> [] \<longrightarrow>
        delete_registry_tree key sub_key reg =
          (True, reg\<lparr>hkcu := remove_key (key @ sub_key) (hkcu reg),
                      deleted := deleted reg @ postorder (key @ sub_key) k\<rparr>))"
  "delete_registry_tree_delete_subkeys_dom (Inr (n, cur, reg)) \<Longrightarrow>
     (\<forall>k. lookup cur (hkcu reg) = Some k \<and> n \<le> length (subkeys k) \<longrightarrow>
        delete_subkeys n cur reg =
          (Inr (), reg\<lparr>hkcu := modify_at cur (drop_subkeys n) (hkcu reg),
                       deleted := deleted reg @ postorder_subkeys cur (take n (subkeys k))\<rparr>))"
proof (induction key sub_key reg and n cur reg rule: delete_registry_tree_delete_subkeys.pinduct)
  case (1 key sub_key reg)
  show ?case
  proof (intro allI impI, elim conjE)
    fix k assume k: "lookup (key @ sub_key) (hkcu reg) = Some k" and ne: "key @ sub_key \<noteq> []"
    let ?cur = "key @ sub_key"
    let ?n = "length (subkeys k)"
    have o: "OpenKey key sub_key reg = Inr ?cur" using k by (simp add: OpenKey_def)
    have q: "QueryInfoKey ?cur reg = Inr ?n" using k by (simp add: QueryInfoKey_def)
    let ?reg' = "reg\<lparr>hkcu := modify_at ?cur (drop_subkeys ?n) (hkcu reg),
                      deleted := deleted reg @ postorder_subkeys ?cur (take ?n (subkeys k))\<rparr>"
    have l: "delete_subkeys ?n ?cur reg = (Inr (), ?reg')"
      using "1.IH"[OF o q] k by simp
    have k': "lookup ?cur (hkcu ?reg') = Some (drop_subkeys ?n k)"
      using k by (simp add: lookup_modify_at)
    have d: "DeleteKey key sub_key ?reg' =
        Inr (reg\<lparr>hkcu := remove_key ?cur (hkcu reg), deleted := deleted reg @ postorder ?cur k\<rparr>)"
      using k' ne by (simp add: DeleteKey_def drop_subkeys_def remove_key_modify_at postorder_eq)
    show "delete_registry_tree key sub_key reg =
          (True, reg\<lparr>hkcu := remove_key ?cur (hkcu reg), deleted := deleted reg @ postorder ?cur k\<rparr>)"
      using d by (simp add: delete_registry_tree.psimps[OF "1.hyps"] o q l)
  qed
next
  case (2 current_key reg)
  then show ?case
    by (simp add: delete_subkeys.psimps postorder_subkeys_def modify_at_same drop_subkeys_0)
next
  case (3 i cur reg)
  show ?case
  proof (intro allI impI, elim conjE)
    fix k assume k: "lookup cur (hkcu reg) = Some k" and n: "Suc i \<le> length (subkeys k)"
    then have ne: "subkeys k \<noteq> []" by auto
    let ?name = "fst (subkeys k ! 0)"
    let ?c = "snd (subkeys k ! 0)"
    have e: "EnumKey cur 0 reg = Inr ?name" using k ne by (simp add: EnumKey_def)
    have c: "lookup (cur @ [?name]) (hkcu reg) = Some ?c"
      using k first_child[OF ne] by (simp add: lookup_append)
    let ?reg' = "reg\<lparr>hkcu := remove_key (cur @ [?name]) (hkcu reg),
                      deleted := deleted reg @ postorder (cur @ [?name]) ?c\<rparr>"
    have t: "delete_registry_tree cur [?name] reg = (True, ?reg')"
      using "3.IH"(1)[OF e] c by simp
    have h: "hkcu ?reg' = modify_at cur (drop_subkeys 1) (hkcu reg)"
      using k drop_first_child[OF ne]
      by (simp only: remove_key_snoc) (auto intro: modify_at_agree)
    have k': "lookup cur (hkcu ?reg') = Some (drop_subkeys 1 k)"
      using k by (simp only: h lookup_modify_at)
    have i: "i \<le> length (subkeys (drop_subkeys 1 k))" using n by (simp add: drop_subkeys_def)
    have r: "delete_subkeys i cur ?reg' =
       (Inr (), ?reg'\<lparr>hkcu := modify_at cur (drop_subkeys i) (hkcu ?reg'),
                       deleted := deleted ?reg' @ postorder_subkeys cur (take i (subkeys (drop_subkeys 1 k)))\<rparr>)"
      using "3.IH"(2)[OF e t[symmetric]] k' i by blast
    have m: "modify_at cur (drop_subkeys i) (hkcu ?reg') = modify_at cur (drop_subkeys (Suc i)) (hkcu reg)"
      using k by (simp only: h modify_at_modify_at) (auto intro!: modify_at_agree simp: drop_subkeys_def drop_Suc drop_tl)
    have p: "postorder (cur @ [?name]) ?c @ postorder_subkeys cur (take i (subkeys (drop_subkeys 1 k)))
        = postorder_subkeys cur (take (Suc i) (subkeys k))"
      using ne by (cases "subkeys k") (auto simp: postorder_subkeys_def drop_subkeys_def)
    show "delete_subkeys (Suc i) cur reg =
          (Inr (), reg\<lparr>hkcu := modify_at cur (drop_subkeys (Suc i)) (hkcu reg),
                       deleted := deleted reg @ postorder_subkeys cur (take (Suc i) (subkeys k))\<rparr>)"
      using m by (simp add: delete_subkeys.psimps(2)[OF "3.hyps"] e t r p[symmetric])
  qed
qed

lemma size_at_child:
  "lookup p k = Some c \<Longrightarrow> subkeys c \<noteq> [] \<Longrightarrow>
     size_at (p @ [fst (subkeys c ! 0)]) k < size_at p k"
  using first_child[of c] child_size[of c]
  by (simp add: size_at_def lookup_append)

lemma size_drop_subkeys: "size (drop_subkeys n k) \<le> size k"
proof -
  have "size_list f (drop n xs) \<le> size_list f xs" for f :: "string \<times> regkey \<Rightarrow> nat" and xs
    by (induction xs arbitrary: n) (auto simp: drop_Cons split: nat.splits intro: le_SucI trans_le_add2)
  then show ?thesis by (cases k) (simp add: drop_subkeys_def)
qed

termination delete_registry_tree
  apply (relation "inv_image (less_than <*lex*> less_than <*lex*> less_than)
         (\<lambda>x. case x of
                 Inl (key, sub_key, reg) \<Rightarrow> (size_at (key @ sub_key) (hkcu reg), 1::nat, 0::nat)
               | Inr (i, key, reg) \<Rightarrow> (size_at key (hkcu reg), 0, i))")
  subgoal by auto
  subgoal by (auto simp: OpenKey_def split: option.splits)
  subgoal by (auto simp: EnumKey_def size_at_child split: option.splits if_splits)
  subgoal for i cur reg name ok reg'
  proof -
    assume 4: "EnumKey cur 0 reg = Inr name" "(ok, reg') = delete_registry_tree cur [name] reg"
       "delete_registry_tree_delete_subkeys_dom (Inl (cur, [name], reg))"
  from 4(1) obtain k where k: "lookup cur (hkcu reg) = Some k" and ne: "subkeys k \<noteq> []"
    and name: "name = fst (subkeys k ! 0)"
    by (auto simp: EnumKey_def split: option.splits if_splits)
  have c: "lookup (cur @ [name]) (hkcu reg) = Some (snd (subkeys k ! 0))"
    using k first_child[OF ne] name by (simp add: lookup_append)
  have "delete_registry_tree cur [name] reg =
      (True, reg\<lparr>hkcu := remove_key (cur @ [name]) (hkcu reg),
                  deleted := deleted reg @ postorder (cur @ [name]) (snd (subkeys k ! 0))\<rparr>)"
    using delete_partial(1)[OF 4(3)] c by simp
  with 4(2) have "hkcu reg' = modify_at cur (drop_subkey name) (hkcu reg)"
    by (simp add: remove_key_snoc)
  then have "lookup cur (hkcu reg') = Some (drop_subkeys 1 k)"
    using k drop_first_child[OF ne] name by (simp add: lookup_modify_at)
  then have "size_at cur (hkcu reg') \<le> size_at cur (hkcu reg)"
    using k size_drop_subkeys[of 1 k] by (simp add: size_at_def)
  then show ?thesis by auto
  qed
  done

lemma delete_registry_tree_total:
  "delete_registry_tree_delete_subkeys_dom (Inl (key, sub_key, reg))"
  "delete_registry_tree_delete_subkeys_dom (Inr (n, cur, reg))"
  by (induction key sub_key reg and n cur reg rule: delete_registry_tree_delete_subkeys.induct)
     (auto intro: delete_registry_tree_delete_subkeys.domintros)

declare delete_registry_tree.simps [simp del]

section \<open>The world the installer runs in\<close>

text \<open>
  A \<open>pathlib.Path\<close> is the list of its components; the first one is the string the path was
  built from (\<open>Path(appdata)\<close>, \<open>Path.home()\<close>), taken as it is. A file name is one
  component: it holds no separator. \<open>str\<close> joins the components with the separator of the
  platform.
\<close>

type_synonym path = "string list"

datatype fsnode = File bool | Dir

text \<open>
  The keyword arguments of one call of \<open>pyshortcuts.make_shortcut\<close>; an argument the call
  leaves out is \<open>None\<close>.
\<close>

record shortcut_call =
  script :: string
  shortcut_name :: string
  icon :: "string option"
  desktop :: "bool option"
  startmenu :: "bool option"
  terminal :: "bool option"
  noexe :: "bool option"

text \<open>
  Everything the program reads or changes. \<open>platform_system\<close> is the result of
  \<open>platform.system()\<close>, \<open>script_dir\<close> is \<open>Path(sys.argv[0]).resolve().parent\<close>. \<open>home\<close> is
  the home directory of the user, \<open>None\<close> when it cannot be determined (no \<open>HOME\<close> and no
  entry in the password database). \<open>files\<close> maps a path to a file (with its execute
  permission) or a directory; \<open>stat_error\<close> gives, for a path that cannot be examined (a
  directory above it may not be searched), the message of the \<open>PermissionError\<close>.
  The collaborators outside this repository are inputs: \<open>which\<close> is
  \<open>shutil.which\<close>, \<open>resource\<close> gives the path of a packaged data file or the exception the
  lookup raises, \<open>make_shortcut_error\<close> and \<open>remove_error\<close> give the message of the exception
  that \<open>make_shortcut\<close>, or the removal of a path, raises (\<open>None\<close>: it succeeds).
  \<open>make_shortcut_calls\<close> lists every call of \<open>make_shortcut\<close>, \<open>shortcuts\<close> those that
  succeeded; where pyshortcuts writes the shortcut is its own affair and not modelled.
  \<open>stdout\<close> is the list of the lines printed. Reading the platform and the environment
  and printing do not raise.
\<close>

record world =
  platform_system :: string
  environ :: "string \<Rightarrow> string option"
  script_dir :: path
  home :: "path option"
  files :: "path \<Rightarrow> fsnode option"
  stat_error :: "path \<Rightarrow> string option"
  remove_error :: "path \<Rightarrow> string option"
  which :: "string \<Rightarrow> string option"
  resource :: "string \<Rightarrow> exception + string"
  make_shortcut_error :: "shortcut_call \<Rightarrow> string option"
  make_shortcut_calls :: "shortcut_call list"
  shortcuts :: "shortcut_call list"
  registry :: registry
  stdout :: "string list"

subsection \<open>Statements with effects and exceptions\<close>

text \<open>
  A statement takes the world and gives the world it leaves, with its value or the
  exception it raises. \<open>bind_io\<close> is sequencing: an exception skips what follows.
  \<open>try_io\<close> is \<open>try: ... except Exception as e: ...\<close>.
\<close>

type_synonym 'a io = "world \<Rightarrow> (exception + 'a) \<times> world"

definition return_io :: "'a \<Rightarrow> 'a io" where
  "return_io x w = (Inr x, w)"

definition bind_io :: "'a io \<Rightarrow> ('a \<Rightarrow> 'b io) \<Rightarrow> 'b io" where
  "bind_io m f w = (case m w of (Inl e, w') \<Rightarrow> (Inl e, w') | (Inr x, w') \<Rightarrow> f x w')"

definition try_io :: "'a io \<Rightarrow> (exception \<Rightarrow> 'a io) \<Rightarrow> 'a io" where
  "try_io m h w = (case m w of (Inl e, w') \<Rightarrow> h e w' | (Inr x, w') \<Rightarrow> (Inr x, w'))"

definition print :: "string \<Rightarrow> unit io" where
  "print line w = (Inr (), w\<lparr>stdout := stdout w @ [line]\<rparr>)"

primrec for_each :: "'a list \<Rightarrow> ('a \<Rightarrow> unit io) \<Rightarrow> unit io" where
  "for_each [] body = return_io ()"
| "for_each (x # xs) body = bind_io (body x) (\<lambda>_. for_each xs body)"

definition read_world :: "(world \<Rightarrow> 'a) \<Rightarrow> 'a io" where
  "read_world f w = (Inr (f w), w)"

text \<open>The ways a registry operation enters a statement.\<close>

definition reg_write :: "(registry \<Rightarrow> exception + registry) \<Rightarrow> unit io" where
  "reg_write f w =
     (case f (registry w) of Inl e \<Rightarrow> (Inl e, w) | Inr r \<Rightarrow> (Inr (), w\<lparr>registry := r\<rparr>))"

definition reg_create :: "(registry \<Rightarrow> exception + hkey \<times> registry) \<Rightarrow> hkey io" where
  "reg_create f w =
     (case f (registry w) of Inl e \<Rightarrow> (Inl e, w) | Inr (h, r) \<Rightarrow> (Inr h, w\<lparr>registry := r\<rparr>))"

definition reg_call :: "(registry \<Rightarrow> 'a \<times> registry) \<Rightarrow> 'a io" where
  "reg_call f w = (case f (registry w) of (x, r) \<Rightarrow> (Inr x, w\<lparr>registry := r\<rparr>))"

subsection \<open>Strings and paths\<close>

definition dquote :: string where
  "dquote = [CHR 0x22]"

definition backslash :: string where
  "backslash = [CHR 0x5C]"

definition newline :: string where
  "newline = [CHR 0x0A]"

text \<open>The truth value of an \<open>Optional[str]\<close>: \<open>None\<close> and the empty string are false.\<close>

definition truthy :: "string option \<Rightarrow> bool" where
  "truthy v = (case v of None \<Rightarrow> False | Some s \<Rightarrow> s \<noteq> [])"

text \<open>An \<open>Optional[str]\<close> inside an f-string.\<close>

definition fmt :: "string option \<Rightarrow> string" where
  "fmt v = (case v of None \<Rightarrow> ''None'' | Some s \<Rightarrow> s)"

fun join :: "string \<Rightarrow> string list \<Rightarrow> string" where
  "join sep [] = []"
| "join sep [x] = x"
| "join sep (x # y # ys) = x @ sep @ join sep (y # ys)"

definition endswith :: "string \<Rightarrow> string \<Rightarrow> bool" where
  "endswith s suffix = (length suffix \<le> length s \<and> drop (length s - length suffix) s = suffix)"

definition path_sep :: "world \<Rightarrow> string" where
  "path_sep w = (if platform_system w = ''Windows'' then backslash else ''/'')"

definition str_path :: "world \<Rightarrow> path \<Rightarrow> string" where
  "str_path w p = join (path_sep w) p"

text \<open>\<open>p / n\<close>: an empty name adds nothing.\<close>

definition joinpath :: "path \<Rightarrow> string \<Rightarrow> path" where
  "joinpath p n = (if n = [] then p else p @ [n])"

definition path_name :: "path \<Rightarrow> string" where
  "path_name p = (if p = [] then [] else last p)"

text \<open>
  \<open>PurePath.suffix\<close>: with \<open>i\<close> the place of the last dot of the name, the name from \<open>i\<close>
  on when \<open>0 < i < len(name) - 1\<close>, else the empty string.
\<close>

definition rfind_dot :: "string \<Rightarrow> nat option" where
  "rfind_dot name =
     (if CHR ''.'' \<in> set name
      then Some (length name - 1 - length (takeWhile (\<lambda>c. c \<noteq> CHR ''.'') (rev name)))
      else None)"

definition suffix :: "path \<Rightarrow> string" where
  "suffix p =
     (let name = path_name p in
      case rfind_dot name of
        None \<Rightarrow> []
      | Some i \<Rightarrow> if 0 < i \<and> i < length name - 1 then drop i name else [])"

text \<open>\<open>PurePath.with_suffix\<close>: a path with an empty name raises \<open>ValueError\<close>.\<close>

definition with_suffix :: "path \<Rightarrow> string \<Rightarrow> exception + path" where
  "with_suffix p new_suffix =
     (let name = path_name p; old_suffix = suffix p in
      if name = [] then Inl (ValueError, ''has an empty name'')
      else if old_suffix = [] then Inr (butlast p @ [name @ new_suffix])
      else Inr (butlast p @ [take (length name - length old_suffix) name @ new_suffix]))"

text \<open>
  \<open>Path.home()\<close> raises \<open>RuntimeError\<close> when the home directory cannot be determined.
\<close>

definition path_home :: "path io" where
  "path_home w =
     (case home w of
        None \<Rightarrow> (Inl (RuntimeError, ''Could not determine home directory.''), w)
      | Some h \<Rightarrow> (Inr h, w))"

text \<open>
  \<open>Path.stat()\<close> as \<open>Path.exists()\<close> and \<open>Path.is_dir()\<close> use it: a path that is not there
  is no error for them, a path that cannot be examined raises \<open>PermissionError\<close>.
\<close>

definition path_stat :: "path \<Rightarrow> fsnode option io" where
  "path_stat p w =
     (case stat_error w p of
        Some msg \<Rightarrow> (Inl (PermissionError, msg), w)
      | None \<Rightarrow> (Inr (files w p), w))"

definition path_exists :: "path \<Rightarrow> bool io" where
  "path_exists p = bind_io (path_stat p) (\<lambda>node. return_io (node \<noteq> None))"

definition path_is_dir :: "path \<Rightarrow> bool io" where
  "path_is_dir p = bind_io (path_stat p) (\<lambda>node. return_io (node = Some Dir))"

text \<open>\<open>os.path.exists\<close> never raises: a path that cannot be examined does not exist for it.\<close>

definition os_path_exists :: "world \<Rightarrow> string \<Rightarrow> bool" where
  "os_path_exists w s = (stat_error w [s] = None \<and> files w [s] \<noteq> None)"

text \<open>
  \<open>Path.is_file()\<close> of the candidate beside the running script (line 86). The process has
  searched the directory of that script in order to start it, so the candidate can be
  examined: the model reads its state without an error.
\<close>

definition is_file :: "world \<Rightarrow> path \<Rightarrow> bool" where
  "is_file w p = (case files w p of Some (File x) \<Rightarrow> True | _ \<Rightarrow> False)"

text \<open>\<open>os.access(p, os.X_OK)\<close>.\<close>

definition access_x :: "world \<Rightarrow> path \<Rightarrow> bool" where
  "access_x w p = (case files w p of Some (File x) \<Rightarrow> x | Some Dir \<Rightarrow> True | None \<Rightarrow> False)"

text \<open>\<open>os.remove\<close> takes one path away, \<open>shutil.rmtree\<close> the path and all below it.\<close>

definition os_remove :: "path \<Rightarrow> unit io" where
  "os_remove p w =
     (case remove_error w p of
        Some msg \<Rightarrow> (Inl (OSError, msg), w)
      | None \<Rightarrow>
          (if files w p = None then (Inl (FileNotFoundError, ''No such file or directory''), w)
           else (Inr (), w\<lparr>files := (files w)(p := None)\<rparr>)))"

definition rmtree :: "path \<Rightarrow> unit io" where
  "rmtree p w =
     (case remove_error w p of
        Some msg \<Rightarrow> (Inl (OSError, msg), w)
      | None \<Rightarrow>
          (if files w p = None then (Inl (FileNotFoundError, ''No such file or directory''), w)
           else (Inr (), w\<lparr>files := (\<lambda>q. if take (length p) q = p then None else files w q)\<rparr>)))"

text \<open>
  \<open>make_shortcut\<close> of pyshortcuts: the call is recorded; it raises when the world says so,
  and else the shortcut exists.
\<close>

definition make_shortcut :: "shortcut_call \<Rightarrow> unit io" where
  "make_shortcut c w =
     (let w' = w\<lparr>make_shortcut_calls := make_shortcut_calls w @ [c]\<rparr> in
      case make_shortcut_error w c of
        Some msg \<Rightarrow> (Inl (OtherException, msg), w')
      | None \<Rightarrow> (Inr (), w'\<lparr>shortcuts := shortcuts w' @ [c]\<rparr>))"

section \<open>The program (moleditpy_installer/main.py)\<close>

subsection \<open>\<open>get_icon_path\<close> (lines 24-58)\<close>

definition get_icon_path :: "string option io" where
  "get_icon_path =
     bind_io (read_world platform_system) (\<lambda>system.
       let icon_name =
             (if system = ''Windows'' then Some ''icon.ico''
              else if system = ''Darwin'' then Some ''icon.icns''
              else if system = ''Linux'' then Some ''icon.png''
              else None)
       in case icon_name of
            None \<Rightarrow>
              bind_io (print (''Warning: Unsupported operating system for icon selection: '' @ system))
                (\<lambda>_. return_io None)
          | Some icon_name \<Rightarrow>
              try_io
                (bind_io (\<lambda>w. (resource w icon_name, w)) (\<lambda>path.
                 bind_io (path_exists [path]) (\<lambda>found.
                   if found then return_io (Some path)
                   else bind_io (print (''Error: Icon file not found in package resources: '' @ path))
                          (\<lambda>_. return_io None))))
                (\<lambda>e. bind_io (print (''Error finding icon file '' @ icon_name @ '': '' @ snd e))
                       (\<lambda>_. return_io None)))"

subsection \<open>\<open>find_executable\<close> (lines 60-104)\<close>

text \<open>Lines 78-84: the candidate beside the running script, with \<open>.exe\<close> added on Windows
  when the name has no suffix.\<close>

definition local_candidate :: "string \<Rightarrow> world \<Rightarrow> exception + path" where
  "local_candidate name w =
     (let candidate_path = joinpath (script_dir w) name in
      if platform_system w = ''Windows'' \<and> suffix candidate_path = []
      then with_suffix candidate_path ''.exe''
      else Inr candidate_path)"

text \<open>Lines 87-89: an upper-case \<open>.EXE\<close> of the candidate becomes \<open>.exe\<close> on Windows.\<close>

definition normalize_candidate :: "world \<Rightarrow> path \<Rightarrow> exception + path" where
  "normalize_candidate w candidate_path =
     (if platform_system w = ''Windows'' \<and> suffix candidate_path = ''.EXE''
      then with_suffix candidate_path ''.exe''
      else Inr candidate_path)"

text \<open>Lines 97-99: the same for the path that \<open>shutil.which\<close> found.\<close>

definition normalize_which :: "world \<Rightarrow> string \<Rightarrow> string" where
  "normalize_which w path_from_shutil =
     (if platform_system w = ''Windows'' \<and> endswith path_from_shutil ''.EXE''
      then take (length path_from_shutil - 4) path_from_shutil @ ''.exe''
      else path_from_shutil)"

definition find_executable :: "string \<Rightarrow> string option io" where
  "find_executable name =
     bind_io (\<lambda>w. (local_candidate name w, w)) (\<lambda>candidate_path.
     bind_io (read_world (\<lambda>w. is_file w candidate_path \<and> access_x w candidate_path)) (\<lambda>local.
       if local then
         bind_io (\<lambda>w. (normalize_candidate w candidate_path, w)) (\<lambda>candidate_path.
         bind_io (read_world (\<lambda>w. str_path w candidate_path)) (\<lambda>found.
         bind_io (print (''Found executable in local directory: '' @ found)) (\<lambda>_.
           return_io (Some found))))
       else
         bind_io (read_world (\<lambda>w. which w name)) (\<lambda>path_from_shutil.
           if truthy path_from_shutil then
             bind_io (read_world (\<lambda>w. normalize_which w (fmt path_from_shutil))) (\<lambda>path_from_shutil.
             bind_io (print (''Found executable in system PATH: '' @ path_from_shutil)) (\<lambda>_.
               return_io (Some path_from_shutil)))
           else return_io None)))"

subsection \<open>\<open>register_file_associations_windows\<close> (lines 106-153)\<close>

definition prog_id :: string where
  "prog_id = ''MoleditPy.File''"

definition app_name :: string where
  "app_name = ''MoleditPy''"

definition extensions :: "string list" where
  "extensions = [''.pmeprj'', ''.pmeraw'']"

text \<open>The key \<open>Software\\Classes\\n\<close>, as the list of its components.\<close>

definition classes_key :: "string \<Rightarrow> string list" where
  "classes_key n = [''Software'', ''Classes'', n]"

text \<open>\<open>with winreg.CreateKey(root, sub_key) as key: winreg.SetValue(key, "", REG_SZ, v)\<close>.\<close>

definition create_and_set :: "hkey \<Rightarrow> string list \<Rightarrow> string \<Rightarrow> unit io" where
  "create_and_set root sub_key v =
     bind_io (reg_create (CreateKey root sub_key)) (\<lambda>key. reg_write (SetValue key v))"

text \<open>Line 138: the open command.\<close>

definition open_command :: "string \<Rightarrow> string" where
  "open_command exe_path = dquote @ exe_path @ dquote @ '' '' @ dquote @ ''%1'' @ dquote"

definition register_file_associations_windows :: "string \<Rightarrow> string option \<Rightarrow> bool io" where
  "register_file_associations_windows exe_path icon_path =
     bind_io (read_world platform_system) (\<lambda>system.
       if system \<noteq> ''Windows'' then return_io False
       else
         try_io
           (bind_io (print ''Registering file associations...'') (\<lambda>_.
            bind_io (create_and_set HKEY_CURRENT_USER (classes_key prog_id) (app_name @ '' File'')) (\<lambda>_.
            bind_io (read_world (\<lambda>w. truthy icon_path \<and> os_path_exists w (fmt icon_path))) (\<lambda>has_icon.
            bind_io (if has_icon
                     then create_and_set HKEY_CURRENT_USER (classes_key prog_id @ [''DefaultIcon''])
                            (fmt icon_path)
                     else return_io ()) (\<lambda>_.
            bind_io (create_and_set HKEY_CURRENT_USER
                       (classes_key prog_id @ [''shell'', ''open'', ''command''])
                       (open_command exe_path)) (\<lambda>_.
            bind_io (for_each extensions (\<lambda>ext.
                       bind_io (create_and_set HKEY_CURRENT_USER (classes_key ext) prog_id) (\<lambda>_.
                         print (''  Associated '' @ ext @ '' with '' @ app_name)))) (\<lambda>_.
            bind_io (print ''File associations registered successfully.'') (\<lambda>_.
              return_io True))))))))
           (\<lambda>e. bind_io (print (''Failed to register file associations: '' @ snd e))
                  (\<lambda>_. return_io False)))"

subsection \<open>\<open>unregister_file_associations_windows\<close> (lines 179-215)\<close>

definition keys_to_remove :: "(hkey \<times> string list) list" where
  "keys_to_remove =
     [(HKEY_CURRENT_USER, classes_key ''.pmeprj''), (HKEY_CURRENT_USER, classes_key ''.pmeraw'')]"

definition prog_id_key :: "string list" where
  "prog_id_key = classes_key ''MoleditPy.File''"

text \<open>Lines 198-204: one extension key; \<open>FileNotFoundError\<close> is passed over in silence.\<close>

definition remove_extension_key :: "hkey \<times> string list \<Rightarrow> unit io" where
  "remove_extension_key = (\<lambda>(root, key_path).
     try_io
       (bind_io (reg_write (DeleteKey root key_path)) (\<lambda>_.
          print (''  Removed registry key: '' @ join backslash key_path)))
       (\<lambda>e. if fst e = FileNotFoundError then return_io ()
              else print (''  Failed to remove '' @ join backslash key_path @ '': '' @ snd e)))"

definition unregister_file_associations_windows :: "unit io" where
  "unregister_file_associations_windows =
     bind_io (read_world platform_system) (\<lambda>system.
       if system \<noteq> ''Windows'' then return_io ()
       else
         bind_io (print ''Unregistering file associations...'') (\<lambda>_.
           try_io
             (bind_io (for_each keys_to_remove remove_extension_key) (\<lambda>_.
              bind_io (reg_call (delete_registry_tree HKEY_CURRENT_USER prog_id_key)) (\<lambda>removed.
              bind_io (if removed
                       then print (''  Removed registry tree: '' @ join backslash prog_id_key)
                       else return_io ()) (\<lambda>_.
                print ''File associations unregistered.''))))
             (\<lambda>e. print (''Error during file association removal: '' @ snd e))))"

subsection \<open>\<open>remove_shortcut\<close> (lines 218-260)\<close>

text \<open>
  Lines 222-248: the place of the shortcut, \<open>Some None\<close> when \<open>APPDATA\<close> is not set. The
  result is \<open>None\<close> when the function has returned (a platform it does not know).
\<close>

definition locate_shortcut :: "path option option io" where
  "locate_shortcut =
     bind_io (read_world platform_system) (\<lambda>system.
       if system = ''Windows'' then
         bind_io (read_world (\<lambda>w. environ w ''APPDATA'')) (\<lambda>appdata.
         bind_io unregister_file_associations_windows (\<lambda>_.
           return_io (Some (if truthy appdata
                            then Some ([fmt appdata] @ [''Microsoft'', ''Windows'', ''Start Menu'',
                                         ''Programs'', ''MoleditPy.lnk''])
                            else None))))
       else if system = ''Linux'' then
         bind_io path_home (\<lambda>home.
           return_io (Some (Some (home @ [''.local'', ''share'', ''applications'',
                                          ''MoleditPy.desktop'']))))
       else if system = ''Darwin'' then
         bind_io path_home (\<lambda>home.
           return_io (Some (Some (home @ [''Desktop'', ''MoleditPy.app'']))))
       else
         bind_io (print (''Removal not fully supported/automated for OS: '' @ system)) (\<lambda>_.
           return_io None))"

definition fmt_path :: "world \<Rightarrow> path option \<Rightarrow> string" where
  "fmt_path w p = (case p of None \<Rightarrow> ''None'' | Some q \<Rightarrow> str_path w q)"

text \<open>
  Lines 250-260. \<open>shortcut_path.exists()\<close> of line 250 stands before the \<open>try\<close>: what it
  raises leaves the function.
\<close>

definition delete_shortcut :: "path option \<Rightarrow> unit io" where
  "delete_shortcut shortcut_path =
     bind_io (read_world (\<lambda>w. fmt_path w shortcut_path)) (\<lambda>shown.
       case shortcut_path of
         None \<Rightarrow> print (''Shortcut not found at expected location: '' @ shown)
       | Some p \<Rightarrow>
           bind_io (path_exists p) (\<lambda>present.
             if present then
               try_io
                 (bind_io (path_is_dir p) (\<lambda>d.
                  bind_io (if d then rmtree p else os_remove p) (\<lambda>_.
                    print (''Removed shortcut: '' @ shown))))
                 (\<lambda>e. print (''Failed to remove shortcut '' @ shown @ '': '' @ snd e))
             else print (''Shortcut not found at expected location: '' @ shown)))"

definition remove_shortcut :: "unit io" where
  "remove_shortcut =
     bind_io locate_shortcut (\<lambda>located.
       case located of
         None \<Rightarrow> return_io ()
       | Some shortcut_path \<Rightarrow> delete_shortcut shortcut_path)"

subsection \<open>\<open>install\<close> (lines 263-359)\<close>

definition command_name :: string where
  "command_name = ''moleditpy''"

text \<open>Lines 291-308: the target of the shortcut and its arguments.\<close>

definition shortcut_target :: "string option \<Rightarrow> string option \<Rightarrow> string \<Rightarrow> string \<times> string" where
  "shortcut_target conda_env conda_exe original_exe_path =
     (if truthy conda_env \<and> truthy conda_exe \<and> conda_env \<noteq> Some ''base''
      then (fmt conda_exe,
            ''run -n '' @ fmt conda_env @ '' '' @ dquote @ original_exe_path @ dquote)
      else (original_exe_path, []))"

text \<open>Lines 317-323: the command handed to \<open>make_shortcut\<close>.\<close>

definition full_command :: "string \<times> string \<Rightarrow> string" where
  "full_command = (\<lambda>(target_script, target_args).
     if target_args \<noteq> [] then dquote @ target_script @ dquote @ '' '' @ target_args
     else target_script)"

text \<open>Lines 326-333 and 338-345: the two calls of \<open>make_shortcut\<close>.\<close>

definition menu_shortcut :: "string \<Rightarrow> string option \<Rightarrow> shortcut_call" where
  "menu_shortcut command icon_path =
     \<lparr>script = command, shortcut_name = ''MoleditPy'', icon = icon_path,
      desktop = Some False, startmenu = Some True, terminal = None, noexe = Some True\<rparr>"

definition app_shortcut :: "string \<Rightarrow> string option \<Rightarrow> shortcut_call" where
  "app_shortcut command icon_path =
     \<lparr>script = command, shortcut_name = ''MoleditPy'', icon = icon_path,
      desktop = Some True, startmenu = None, terminal = Some True, noexe = Some True\<rparr>"

text \<open>
  Lines 310-352, the \<open>try\<close> block. Its value says whether \<open>install\<close> goes on after it:
  \<open>False\<close> is the \<open>return\<close> of line 349.
\<close>

definition create_shortcut :: "string \<Rightarrow> string \<times> string \<Rightarrow> string option \<Rightarrow> bool io" where
  "create_shortcut system target icon_path =
     try_io
       (bind_io (print ''Creating 'MoleditPy' shortcut...'') (\<lambda>_.
        bind_io (print (''Targeting: '' @ fst target @ '' '' @ snd target)) (\<lambda>_.
          if system = ''Windows'' \<or> system = ''Linux'' then
            bind_io (make_shortcut (menu_shortcut (full_command target) icon_path)) (\<lambda>_.
            bind_io (print ''Successfully created 'MoleditPy' in the application menu.'') (\<lambda>_.
              return_io True))
          else if system = ''Darwin'' then
            bind_io (print ''macOS detected. Creating application in /Applications folder...'') (\<lambda>_.
            bind_io (make_shortcut (app_shortcut (full_command target) icon_path)) (\<lambda>_.
            bind_io (print ''Successfully created 'MoleditPy' in /Applications.'') (\<lambda>_.
              return_io True)))
          else
            bind_io (print (''Shortcut creation is not supported on this OS: '' @ system)) (\<lambda>_.
              return_io False))))
       (\<lambda>e. bind_io (print (''Failed to create shortcut: '' @ snd e)) (\<lambda>_. return_io True))"

text \<open>Lines 285-289: the executable was not found.\<close>

definition report_not_found :: "unit io" where
  "report_not_found =
     bind_io (print ''Error: Command 'moleditpy' not found.'') (\<lambda>_.
     bind_io (print ''Please ensure 'moleditpy' (or 'moleditpy-linux') is installed correctly'') (\<lambda>_.
       print ''and that its location is available.''))"

text \<open>Lines 291-359: the executable was found.\<close>

definition install_found :: "string option \<Rightarrow> string option \<Rightarrow> string option \<Rightarrow> string \<Rightarrow> unit io" where
  "install_found icon_path conda_env conda_exe original_exe_path =
     bind_io (if truthy conda_env \<and> truthy conda_exe \<and> conda_env \<noteq> Some ''base''
              then print (''Conda environment detected: '' @ fmt conda_env)
              else return_io ()) (\<lambda>_.
     bind_io (read_world platform_system) (\<lambda>system.
     bind_io (create_shortcut system
                (shortcut_target conda_env conda_exe original_exe_path) icon_path) (\<lambda>goes_on.
       if \<not> goes_on then return_io ()
       else if system = ''Windows'' \<and> original_exe_path \<noteq> [] then
         bind_io (register_file_associations_windows original_exe_path icon_path) (\<lambda>_.
         bind_io (print (newline @ ''You can remove the shortcut and file associations by running:'')) (\<lambda>_.
           print ''  moleditpy-installer --remove''))
       else return_io ())))"

text \<open>
  \<open>system\<close> is assigned at line 312, inside the \<open>try\<close>, before any statement that can raise;
  the model reads it just before the block.
\<close>

definition install :: "unit io" where
  "install =
     bind_io get_icon_path (\<lambda>icon_path.
     bind_io (if \<not> truthy icon_path
              then print ''Warning: Could not find a suitable icon file. A default icon will be used.''
              else return_io ()) (\<lambda>_.
     bind_io (read_world (\<lambda>w. environ w ''CONDA_DEFAULT_ENV'')) (\<lambda>conda_env.
     bind_io (read_world (\<lambda>w. environ w ''CONDA_EXE'')) (\<lambda>conda_exe.
     bind_io (print ''Searching for the executable 'moleditpy'...'') (\<lambda>_.
     bind_io (find_executable command_name) (\<lambda>original_exe_path.
       if \<not> truthy original_exe_path then report_not_found
       else install_found icon_path conda_env conda_exe (fmt original_exe_path)))))))"

subsection \<open>\<open>main\<close> (lines 361-375)\<close>

text \<open>
  \<open>remove\<close> is \<open>args.remove\<close>, as \<open>argparse\<close> read it from the command line: \<open>True\<close> for
  \<open>--remove\<close>, \<open>False\<close> for no flag.
\<close>

definition main :: "bool \<Rightarrow> int io" where
  "main remove =
     bind_io (if remove then remove_shortcut else install) (\<lambda>_. return_io 0)"

text \<open>
  \<open>sys.exit(main())\<close>: the exit status of the process; an exception that nothing catches
  ends it with status 1.
\<close>

definition exit_status :: "(exception + int) \<times> world \<Rightarrow> int" where
  "exit_status r = (case fst r of Inl e \<Rightarrow> 1 | Inr code \<Rightarrow> code)"

section \<open>What the registry holds after a registration\<close>

text \<open>
  \<open>value_at p k\<close> is the default value stored at the key \<open>p\<close>: \<open>None\<close> when there is no
  such key, \<open>Some None\<close> when the key has no default value. \<open>assoc p v\<close> is the effect of
  creating the key \<open>p\<close> and setting its default value to \<open>v\<close>.
\<close>

definition set_default :: "hkey \<Rightarrow> string \<Rightarrow> regkey \<Rightarrow> regkey" where
  "set_default p v k = modify_at p (\<lambda>c. RegKey (Some v) (subkeys c)) k"

definition value_at :: "hkey \<Rightarrow> regkey \<Rightarrow> string option option" where
  "value_at p k = map_option default_value (lookup p k)"

lemma map_of_put_first_other: "m \<noteq> n \<Longrightarrow> map_of (put_first n c ks) m = map_of ks m"
  by (induction n c ks rule: put_first.induct) auto

lemma lookup_create_key_self: "lookup p (create_key p k) \<noteq> None"
  by (induction p arbitrary: k) (auto simp: child_def child_put_first)

lemma value_at_create_key:
  "value_at p k = Some x \<Longrightarrow> value_at p (create_key q k) = Some x"
proof (induction q arbitrary: p k)
  case Nil
  then show ?case by simp
next
  case (Cons n q)
  show ?case
  proof (cases p)
    case Nil
    with Cons.prems show ?thesis by (simp add: value_at_def)
  next
    case (Cons m p')
    show ?thesis
    proof (cases "m = n")
      case True
      from Cons.prems obtain c where c: "child k n = Some c" and x: "value_at p' c = Some x"
        using \<open>p = m # p'\<close> True by (auto simp: value_at_def split: option.splits)
      have "value_at p' (create_key q c) = Some x" using Cons.IH[OF x] .
      then show ?thesis using c \<open>p = m # p'\<close> True
        by (simp add: value_at_def child_def child_put_first)
    next
      case False
      then show ?thesis using Cons.prems \<open>p = m # p'\<close>
        by (simp add: value_at_def child_def map_of_put_first_other)
    qed
  qed
qed

lemma value_at_set_default:
  "value_at p k = Some x \<Longrightarrow>
     value_at p (set_default q v k) = Some (if p = q then Some v else x)"
proof (induction q arbitrary: p k)
  case Nil
  then show ?case by (cases p) (auto simp: value_at_def set_default_def child_def)
next
  case (Cons n q)
  show ?case
  proof (cases "child k n")
    case None
    with Cons.prems show ?thesis
      by (cases p) (auto simp: value_at_def set_default_def split: option.splits)
  next
    case (Some c)
    show ?thesis
    proof (cases p)
      case Nil
      with Cons.prems Some show ?thesis by (simp add: value_at_def set_default_def)
    next
      case (Cons m p')
      show ?thesis
      proof (cases "m = n")
        case True
        from Cons.prems have x: "value_at p' c = Some x"
          using \<open>p = m # p'\<close> True Some by (auto simp: value_at_def split: option.splits)
        from Cons.IH[OF x] show ?thesis using Some \<open>p = m # p'\<close> True
          by (simp add: value_at_def set_default_def child_def child_put_first)
      next
        case False
        then show ?thesis using Cons.prems \<open>p = m # p'\<close> Some
          by (simp add: value_at_def set_default_def child_def map_of_put_first_other)
      qed
    qed
  qed
qed

definition assoc :: "hkey \<Rightarrow> string \<Rightarrow> registry \<Rightarrow> registry" where
  "assoc p v r = r\<lparr>hkcu := set_default p v (create_key p (hkcu r))\<rparr>"

lemma value_at_assoc_self: "value_at p (hkcu (assoc p v r)) = Some (Some v)"
proof -
  obtain c where "lookup p (create_key p (hkcu r)) = Some c"
    using lookup_create_key_self[of p "hkcu r"] by auto
  then have "value_at p (create_key p (hkcu r)) = Some (default_value c)"
    by (simp add: value_at_def)
  from value_at_set_default[OF this, of p v] show ?thesis by (simp add: assoc_def)
qed

lemma value_at_assoc_other:
  "value_at p (hkcu r) = Some x \<Longrightarrow> p \<noteq> q \<Longrightarrow> value_at p (hkcu (assoc q v r)) = Some x"
proof -
  assume x: "value_at p (hkcu r) = Some x" and ne: "p \<noteq> q"
  have "value_at p (create_key q (hkcu r)) = Some x" by (rule value_at_create_key[OF x])
  from value_at_set_default[OF this] ne show ?thesis by (simp add: assoc_def)
qed

lemma create_and_set_eval:
  "create_and_set HKEY_CURRENT_USER p v w = (Inr (), w\<lparr>registry := assoc p v (registry w)\<rparr>)"
  using lookup_create_key_self[of p "hkcu (registry w)"]
  by (auto simp: create_and_set_def bind_io_def reg_create_def reg_write_def CreateKey_def
        SetValue_def HKEY_CURRENT_USER_def assoc_def set_default_def split: option.splits)

definition registered :: "string \<Rightarrow> string option \<Rightarrow> world \<Rightarrow> registry" where
  "registered exe_path icon_path w =
     assoc (classes_key ''.pmeraw'') prog_id
       (assoc (classes_key ''.pmeprj'') prog_id
         (assoc (classes_key prog_id @ [''shell'', ''open'', ''command'']) (open_command exe_path)
           ((if truthy icon_path \<and> os_path_exists w (fmt icon_path)
             then assoc (classes_key prog_id @ [''DefaultIcon'']) (fmt icon_path) else (\<lambda>r. r))
              (assoc (classes_key prog_id) (app_name @ '' File'') (registry w)))))"

lemma register_eval:
  "platform_system w = ''Windows'' \<Longrightarrow>
     register_file_associations_windows exe_path icon_path w =
       (Inr True, w\<lparr>registry := registered exe_path icon_path w,
                    stdout := stdout w @ [''Registering file associations...'',
                       ''  Associated .pmeprj with MoleditPy'', ''  Associated .pmeraw with MoleditPy'',
                       ''File associations registered successfully.'']\<rparr>)"
  by (auto simp: register_file_associations_windows_def bind_io_def try_io_def read_world_def
        print_def return_io_def create_and_set_eval extensions_def registered_def os_path_exists_def app_name_def)

section \<open>Example worlds\<close>

definition no_registry :: registry where
  "no_registry = \<lparr>hkcu = RegKey None [], deleted = []\<rparr>"

definition windows_world :: world where
  "windows_world =
     \<lparr>platform_system = ''Windows'',
      environ = (\<lambda>v. if v = ''APPDATA'' then Some (''C:'' @ backslash @ ''Roaming'') else None),
      script_dir = [''C:'' @ backslash @ ''Tools''],
      home = Some [''C:'' @ backslash @ ''Users''],
      files = (\<lambda>p. if p = [''C:'' @ backslash @ ''Tools'', ''moleditpy.exe'']
                   then Some (File True) else None),
      stat_error = (\<lambda>p. None),
      remove_error = (\<lambda>p. None),
      which = (\<lambda>n. None),
      resource = (\<lambda>n. Inr (''C:'' @ backslash @ ''pkg'' @ backslash @ n)),
      make_shortcut_error = (\<lambda>c. None),
      make_shortcut_calls = [],
      shortcuts = [],
      registry = no_registry,
      stdout = []\<rparr>"

section \<open>The open command (lines 136-140)\<close>

lemma command_key_other:
  "classes_key prog_id @ [''shell'', ''open'', ''command''] \<noteq> classes_key ''.pmeprj''"
  "classes_key prog_id @ [''shell'', ''open'', ''command''] \<noteq> classes_key ''.pmeraw''"
  by (simp_all add: classes_key_def)

lemma registered_command:
  "value_at (classes_key prog_id @ [''shell'', ''open'', ''command''])
     (hkcu (registered exe_path icon_path w)) = Some (Some (open_command exe_path))"
  unfolding registered_def
  by (intro value_at_assoc_other value_at_assoc_self command_key_other)

text \<open>
  Claim C3. On Windows, for every executable path, paths with spaces included, the
  association writer succeeds and the default value of the key
  \<open>Software\\Classes\\MoleditPy.File\\shell\\open\\command\<close> is afterwards the executable
  path in double quotes, a space, and \<open>%1\<close> in double quotes.
\<close>

theorem open_command_quoted:
  assumes "platform_system w = ''Windows''"
  shows "fst (register_file_associations_windows exe_path icon_path w) = Inr True \<and>
         value_at [''Software'', ''Classes'', ''MoleditPy.File'', ''shell'', ''open'', ''command'']
           (hkcu (registry (snd (register_file_associations_windows exe_path icon_path w))))
         = Some (Some (''\"'' @ exe_path @ ''\" \"%1\"''))"
proof -
  have k: "[''Software'', ''Classes'', ''MoleditPy.File'', ''shell'', ''open'', ''command'']
         = classes_key prog_id @ [''shell'', ''open'', ''command'']"
    by (simp add: classes_key_def prog_id_def)
  have c: "open_command exe_path = ''\"'' @ exe_path @ ''\" \"%1\"''"
    by (simp add: open_command_def dquote_def)
  show ?thesis
    unfolding k register_eval[OF assms] by (simp add: registered_command c)
qed

text \<open>The path \<open>C:\\Program Files\\moleditpy.exe\<close> of the specification.\<close>

theorem open_command_quoted_witness:
  "platform_system windows_world = ''Windows'' \<and>
   value_at [''Software'', ''Classes'', ''MoleditPy.File'', ''shell'', ''open'', ''command'']
     (hkcu (registry (snd (register_file_associations_windows
        (''C:'' @ backslash @ ''Program Files'' @ backslash @ ''moleditpy.exe'') None windows_world))))
   = Some (Some (''\"C:'' @ backslash @ ''Program Files'' @ backslash @ ''moleditpy.exe\" \"%1\"''))"
proof -
  have h: "platform_system windows_world = ''Windows''" by (simp add: windows_world_def)
  show ?thesis
    using h open_command_quoted[OF h, of "''C:'' @ backslash @ ''Program Files'' @ backslash @ ''moleditpy.exe''" None]
    by simp
qed

section \<open>Removing the program identifier (lines 157-215)\<close>

lemma delete_registry_tree_existing:
  assumes "lookup (key @ sub_key) (hkcu reg) = Some k" and "key @ sub_key \<noteq> []"
  shows "delete_registry_tree key sub_key reg =
           (True, reg\<lparr>hkcu := remove_key (key @ sub_key) (hkcu reg),
                       deleted := deleted reg @ postorder (key @ sub_key) k\<rparr>)"
  using delete_partial(1)[OF delete_registry_tree_total(1)] assms by blast

lemma delete_subkeys_existing:
  assumes "lookup cur (hkcu reg) = Some k" and "n \<le> length (subkeys k)"
  shows "delete_subkeys n cur reg =
           (Inr (), reg\<lparr>hkcu := modify_at cur (drop_subkeys n) (hkcu reg),
                        deleted := deleted reg @ postorder_subkeys cur (take n (subkeys k))\<rparr>)"
  using delete_partial(2)[OF delete_registry_tree_total(2)] assms by blast

lemma delete_registry_tree_missing:
  "lookup (key @ sub_key) (hkcu reg) = None \<Longrightarrow> delete_registry_tree key sub_key reg = (False, reg)"
  by (simp add: delete_registry_tree.simps OpenKey_def)

lemma map_of_del_first_other: "m \<noteq> n \<Longrightarrow> map_of (del_first n ks) m = map_of ks m"
  by (induction n ks rule: del_first.induct) auto

lemma map_of_del_first_self: "distinct (map fst ks) \<Longrightarrow> map_of (del_first n ks) n = None"
  by (induction n ks rule: del_first.induct) (auto simp: map_of_eq_None_iff)

lemma set_del_first: "set (del_first n ks) \<subseteq> set ks"
  by (induction n ks rule: del_first.induct) auto

lemma distinct_del_first: "distinct (map fst ks) \<Longrightarrow> distinct (map fst (del_first n ks))"
  by (induction n ks rule: del_first.induct) (use set_del_first in \<open>auto simp: image_iff\<close>)

lemma wf_regkey_iff:
  "wf_regkey k = (distinct (map fst (subkeys k)) \<and> (\<forall>(n, c) \<in> set (subkeys k). wf_regkey c))"
  by (cases k) (auto simp: list_all_iff)

lemma wf_child: "wf_regkey k \<Longrightarrow> child k n = Some c \<Longrightarrow> wf_regkey c"
  by (auto simp: wf_regkey_iff[of k] child_def dest: map_of_SomeD)

lemma wf_lookup: "wf_regkey k \<Longrightarrow> lookup p k = Some c \<Longrightarrow> wf_regkey c"
  by (induction p arbitrary: k) (auto split: option.splits dest: wf_child)

lemma wf_drop_subkey: "wf_regkey k \<Longrightarrow> wf_regkey (drop_subkey n k)"
  using set_del_first[of n "subkeys k"]
  by (auto simp: wf_regkey_iff[of k] drop_subkey_def distinct_del_first list_all_iff)

lemma set_put_first: "set (put_first n c ks) \<subseteq> insert (n, c) (set ks)"
  by (induction n c ks rule: put_first.induct) auto

lemma map_fst_put_first: "map_of ks n \<noteq> None \<Longrightarrow> map fst (put_first n c ks) = map fst ks"
  by (induction n c ks rule: put_first.induct) auto

lemma wf_modify_at:
  "wf_regkey k \<Longrightarrow> (\<And>c. wf_regkey c \<Longrightarrow> wf_regkey (f c)) \<Longrightarrow> wf_regkey (modify_at p f k)"
proof (induction p arbitrary: k)
  case Nil
  then show ?case by simp
next
  case (Cons n p)
  show ?case
  proof (cases "child k n")
    case None
    then show ?thesis using Cons.prems by simp
  next
    case (Some c)
    have c: "wf_regkey (modify_at p f c)"
      using Cons.IH[OF wf_child[OF Cons.prems(1) Some] Cons.prems(2)] .
    have "wf_regkey (RegKey (default_value k) (put_first n (modify_at p f c) (subkeys k)))"
      using Cons.prems(1) c Some set_put_first[of n "modify_at p f c" "subkeys k"]
      by (auto simp: wf_regkey_iff[of k] list_all_iff child_def map_fst_put_first)
    then show ?thesis using Some by simp
  qed
qed

lemma wf_remove_key: "wf_regkey k \<Longrightarrow> wf_regkey (remove_key p k)"
  by (simp add: remove_key_def wf_modify_at wf_drop_subkey)

lemma modify_at_missing: "lookup p k = None \<Longrightarrow> modify_at p f k = k"
  by (induction p arbitrary: k) (auto simp: child_def put_first_same split: option.splits)

lemma lookup_remove_key_self:
  assumes "wf_regkey k"
  shows "lookup (p @ [n]) (remove_key (p @ [n]) k) = None"
proof (cases "lookup p k")
  case None
  then show ?thesis by (simp add: remove_key_snoc modify_at_missing lookup_append)
next
  case (Some c)
  have "distinct (map fst (subkeys c))"
    using wf_lookup[OF assms Some] by (simp add: wf_regkey_iff[of c])
  then show ?thesis using Some
    by (simp add: remove_key_snoc lookup_append lookup_modify_at child_def drop_subkey_def
          map_of_del_first_self)
qed

lemma lookup_remove_key_sibling:
  assumes "m \<noteq> n"
  shows "lookup (p @ [m]) (remove_key (p @ [n]) k) = lookup (p @ [m]) k"
proof (cases "lookup p k")
  case None
  then show ?thesis by (simp add: remove_key_snoc modify_at_missing)
next
  case (Some c)
  then show ?thesis using assms
    by (simp add: remove_key_snoc lookup_append lookup_modify_at child_def drop_subkey_def
          map_of_del_first_other)
qed

definition drop_extension :: "string list \<Rightarrow> registry \<Rightarrow> registry" where
  "drop_extension key_path r = (case DeleteKey HKEY_CURRENT_USER key_path r of Inl e \<Rightarrow> r | Inr r' \<Rightarrow> r')"

lemma remove_extension_key_eval:
  "\<exists>msgs. remove_extension_key (HKEY_CURRENT_USER, key_path) w =
     (Inr (), w\<lparr>registry := drop_extension key_path (registry w), stdout := stdout w @ msgs\<rparr>)"
proof (cases "DeleteKey HKEY_CURRENT_USER key_path (registry w)")
  case (Inl e)
  show ?thesis
  proof (cases "fst e = FileNotFoundError")
    case True
    have "remove_extension_key (HKEY_CURRENT_USER, key_path) w =
        (Inr (), w\<lparr>registry := drop_extension key_path (registry w), stdout := stdout w @ []\<rparr>)"
      using Inl True
      by (simp add: remove_extension_key_def try_io_def bind_io_def reg_write_def return_io_def
            drop_extension_def)
    then show ?thesis by blast
  next
    case False
    have "remove_extension_key (HKEY_CURRENT_USER, key_path) w =
        (Inr (), w\<lparr>registry := drop_extension key_path (registry w),
           stdout := stdout w @ [''  Failed to remove '' @ join backslash key_path @ '': '' @ snd e]\<rparr>)"
      using Inl False
      by (simp add: remove_extension_key_def try_io_def bind_io_def reg_write_def print_def
            drop_extension_def)
    then show ?thesis by blast
  qed
next
  case (Inr r)
  have "remove_extension_key (HKEY_CURRENT_USER, key_path) w =
      (Inr (), w\<lparr>registry := drop_extension key_path (registry w),
         stdout := stdout w @ [''  Removed registry key: '' @ join backslash key_path]\<rparr>)"
    using Inr
    by (simp add: remove_extension_key_def try_io_def bind_io_def reg_write_def print_def
          drop_extension_def)
  then show ?thesis by blast
qed

definition unregistered :: "registry \<Rightarrow> registry" where
  "unregistered r =
     snd (delete_registry_tree HKEY_CURRENT_USER prog_id_key
            (drop_extension (classes_key ''.pmeraw'') (drop_extension (classes_key ''.pmeprj'') r)))"

lemma unregister_eval:
  assumes "platform_system w = ''Windows''"
  shows "\<exists>msgs. unregister_file_associations_windows w =
     (Inr (), w\<lparr>registry := unregistered (registry w), stdout := stdout w @ msgs\<rparr>)"
proof -
  let ?w0 = "w\<lparr>stdout := stdout w @ [''Unregistering file associations...'']\<rparr>"
  obtain m1 where 1: "remove_extension_key (HKEY_CURRENT_USER, classes_key ''.pmeprj'') ?w0 =
      (Inr (), ?w0\<lparr>registry := drop_extension (classes_key ''.pmeprj'') (registry ?w0),
                    stdout := stdout ?w0 @ m1\<rparr>)"
    using remove_extension_key_eval by blast
  let ?w1 = "?w0\<lparr>registry := drop_extension (classes_key ''.pmeprj'') (registry ?w0),
                    stdout := stdout ?w0 @ m1\<rparr>"
  obtain m2 where 2: "remove_extension_key (HKEY_CURRENT_USER, classes_key ''.pmeraw'') ?w1 =
      (Inr (), ?w1\<lparr>registry := drop_extension (classes_key ''.pmeraw'') (registry ?w1),
                    stdout := stdout ?w1 @ m2\<rparr>)"
    using remove_extension_key_eval by blast
  let ?w2 = "?w1\<lparr>registry := drop_extension (classes_key ''.pmeraw'') (registry ?w1),
                    stdout := stdout ?w1 @ m2\<rparr>"
  have loop: "for_each keys_to_remove remove_extension_key ?w0 = (Inr (), ?w2)"
    using 1 2 by (simp add: keys_to_remove_def bind_io_def return_io_def)
  obtain ok r where d: "delete_registry_tree HKEY_CURRENT_USER prog_id_key (registry ?w2) = (ok, r)"
    by (cases "delete_registry_tree HKEY_CURRENT_USER prog_id_key (registry ?w2)") blast
  have r: "r = unregistered (registry w)"
    using d by (simp add: unregistered_def)
  let ?m3 = "if ok then [''  Removed registry tree: '' @ join backslash prog_id_key] else []"
  have "unregister_file_associations_windows w =
     (Inr (), w\<lparr>registry := unregistered (registry w),
        stdout := stdout w @ ([''Unregistering file associations...''] @ m1 @ m2 @ ?m3 @
           [''File associations unregistered.''])\<rparr>)"
    using assms d
    by (simp add: unregister_file_associations_windows_def bind_io_def read_world_def try_io_def
          print_def loop reg_call_def return_io_def r)
  then show ?thesis by blast
qed

lemma drop_extension_cases:
  "drop_extension p r = r \<or>
   drop_extension p r = r\<lparr>hkcu := remove_key p (hkcu r), deleted := deleted r @ [p]\<rparr>"
  by (auto simp: drop_extension_def DeleteKey_def HKEY_CURRENT_USER_def split: option.splits)

lemma wf_drop_extension: "wf_regkey (hkcu r) \<Longrightarrow> wf_regkey (hkcu (drop_extension p r))"
  using drop_extension_cases[of p r] by (auto simp: wf_remove_key)

lemma classes_key_snoc: "classes_key n = [''Software'', ''Classes''] @ [n]"
  by (simp add: classes_key_def)

lemma lookup_drop_extension:
  "n \<noteq> m \<Longrightarrow>
     lookup (classes_key m) (hkcu (drop_extension (classes_key n) r)) = lookup (classes_key m) (hkcu r)"
  using drop_extension_cases[of "classes_key n" r]
  by (auto simp: classes_key_snoc lookup_remove_key_sibling simp del: append.simps)

lemma deleted_drop_extension:
  "\<exists>ds. set ds \<subseteq> {p} \<and> deleted (drop_extension p r) = deleted r @ ds"
  using drop_extension_cases[of p r] by (elim disjE) (force+)

lemma prog_id_key_after_extensions:
  "lookup prog_id_key
     (hkcu (drop_extension (classes_key ''.pmeraw'') (drop_extension (classes_key ''.pmeprj'') r)))
   = lookup prog_id_key (hkcu r)"
  by (simp add: prog_id_key_def lookup_drop_extension)

lemma unregistered_absent:
  assumes "wf_regkey (hkcu r)"
  shows "lookup (prog_id_key @ q) (hkcu (unregistered r)) = None"
proof -
  let ?r = "drop_extension (classes_key ''.pmeraw'') (drop_extension (classes_key ''.pmeprj'') r)"
  have wf: "wf_regkey (hkcu ?r)" using assms by (intro wf_drop_extension)
  have h: "HKEY_CURRENT_USER @ prog_id_key = prog_id_key"
    by (simp add: HKEY_CURRENT_USER_def)
  have p: "prog_id_key = [''Software'', ''Classes''] @ [''MoleditPy.File'']"
    by (simp add: prog_id_key_def classes_key_def)
  have gone: "lookup prog_id_key (remove_key prog_id_key (hkcu ?r)) = None"
    unfolding p by (rule lookup_remove_key_self[OF wf])
  have "lookup prog_id_key (hkcu (unregistered r)) = None"
  proof (cases "lookup (HKEY_CURRENT_USER @ prog_id_key) (hkcu ?r)")
    case None
    then show ?thesis
      by (simp add: unregistered_def delete_registry_tree_missing h)
  next
    case (Some k)
    have "HKEY_CURRENT_USER @ prog_id_key \<noteq> []" by (simp add: h p)
    from delete_registry_tree_existing[OF Some this]
    have "hkcu (unregistered r) = remove_key prog_id_key (hkcu ?r)"
      by (simp add: unregistered_def h)
    then show ?thesis using gone by simp
  qed
  then show ?thesis by (simp add: lookup_append)
qed

lemma unregistered_deleted:
  assumes "lookup prog_id_key (hkcu r) = Some t"
  shows "\<exists>ds. set ds \<subseteq> {classes_key ''.pmeprj'', classes_key ''.pmeraw''} \<and>
           deleted (unregistered r) = deleted r @ ds @ postorder prog_id_key t"
proof -
  let ?r1 = "drop_extension (classes_key ''.pmeprj'') r"
  let ?r = "drop_extension (classes_key ''.pmeraw'') ?r1"
  obtain d1 where d1: "set d1 \<subseteq> {classes_key ''.pmeprj''}" "deleted ?r1 = deleted r @ d1"
    using deleted_drop_extension by blast
  obtain d2 where d2: "set d2 \<subseteq> {classes_key ''.pmeraw''}" "deleted ?r = deleted ?r1 @ d2"
    using deleted_drop_extension by blast
  have k: "lookup (HKEY_CURRENT_USER @ prog_id_key) (hkcu ?r) = Some t"
    using assms by (simp add: HKEY_CURRENT_USER_def prog_id_key_after_extensions)
  have "HKEY_CURRENT_USER @ prog_id_key \<noteq> []"
    by (simp add: prog_id_key_def classes_key_def)
  from delete_registry_tree_existing[OF k this]
  have "deleted (unregistered r) = deleted ?r @ postorder prog_id_key t"
    by (simp add: unregistered_def HKEY_CURRENT_USER_def)
  then have "deleted (unregistered r) = deleted r @ (d1 @ d2) @ postorder prog_id_key t"
    using d1(2) d2(2) by simp
  moreover have "set (d1 @ d2) \<subseteq> {classes_key ''.pmeprj'', classes_key ''.pmeraw''}"
    using d1(1) d2(1) by auto
  ultimately show ?thesis by blast
qed

text \<open>
  Claim C1. On Windows, for every registry without two sub-keys of one name under one
  key, one call of the unregister operation ends without an exception and leaves neither
  the key \<open>Software\\Classes\\MoleditPy.File\<close> nor any key below it. When the key was
  there with the tree \<open>t\<close>, the keys that \<open>DeleteKey\<close> removed are, after at most the two
  extension keys, exactly the keys of \<open>t\<close> in depth-first order, every child tree before
  its parent: \<open>delete_subkeys\<close> asks for the sub-key at index 0 in every round, and
  \<open>DeleteKey\<close> refuses a key that still has sub-keys.
\<close>

theorem unregister_removes_tree:
  assumes "platform_system w = ''Windows''" and "wf_regkey (hkcu (registry w))"
  shows "fst (unregister_file_associations_windows w) = Inr () \<and>
         (\<forall>q. lookup ([''Software'', ''Classes'', ''MoleditPy.File''] @ q)
                (hkcu (registry (snd (unregister_file_associations_windows w)))) = None) \<and>
         (\<forall>t. lookup [''Software'', ''Classes'', ''MoleditPy.File''] (hkcu (registry w)) = Some t \<longrightarrow>
            (\<exists>ds. set ds \<subseteq> {classes_key ''.pmeprj'', classes_key ''.pmeraw''} \<and>
               deleted (registry (snd (unregister_file_associations_windows w))) =
                 deleted (registry w) @ ds @ postorder [''Software'', ''Classes'', ''MoleditPy.File''] t))"
proof -
  have p: "[''Software'', ''Classes'', ''MoleditPy.File''] = prog_id_key"
    by (simp add: prog_id_key_def classes_key_def)
  obtain msgs where e: "unregister_file_associations_windows w =
      (Inr (), w\<lparr>registry := unregistered (registry w), stdout := stdout w @ msgs\<rparr>)"
    using unregister_eval[OF assms(1)] by blast
  show ?thesis
    unfolding p e using unregistered_absent[OF assms(2)] unregistered_deleted[of "registry w"]
    by simp
qed

definition prog_id_tree :: regkey where
  "prog_id_tree =
     RegKey (Some ''MoleditPy File'')
       [(''DefaultIcon'', RegKey (Some ''icon.ico'') []),
        (''shell'', RegKey None
           [(''open'', RegKey None
              [(''command'', RegKey (Some ''moleditpy.exe'') [])])])]"

definition installed_registry :: registry where
  "installed_registry =
     \<lparr>hkcu = RegKey None
        [(''Software'', RegKey None
            [(''Classes'', RegKey None
                [(''.pmeprj'', RegKey (Some ''MoleditPy.File'') []),
                 (''.pmeraw'', RegKey (Some ''MoleditPy.File'') []),
                 (''MoleditPy.File'', prog_id_tree)])])],
      deleted = []\<rparr>"

definition installed_world :: world where
  "installed_world = windows_world\<lparr>registry := installed_registry\<rparr>"

text \<open>
  A program identifier with two levels of keys below \<open>shell\<close>, as an installation
  leaves it.
\<close>

theorem unregister_removes_tree_witness:
  "platform_system installed_world = ''Windows'' \<and>
   wf_regkey (hkcu (registry installed_world)) \<and>
   lookup [''Software'', ''Classes'', ''MoleditPy.File'']
     (hkcu (registry (snd (unregister_file_associations_windows installed_world)))) = None \<and>
   (\<exists>ds. set ds \<subseteq> {classes_key ''.pmeprj'', classes_key ''.pmeraw''} \<and>
      deleted (registry (snd (unregister_file_associations_windows installed_world))) =
        ds @ [[''Software'', ''Classes'', ''MoleditPy.File'', ''DefaultIcon''],
              [''Software'', ''Classes'', ''MoleditPy.File'', ''shell'', ''open'', ''command''],
              [''Software'', ''Classes'', ''MoleditPy.File'', ''shell'', ''open''],
              [''Software'', ''Classes'', ''MoleditPy.File'', ''shell''],
              [''Software'', ''Classes'', ''MoleditPy.File'']])"
proof -
  have h1: "platform_system installed_world = ''Windows''"
    by (simp add: installed_world_def windows_world_def)
  have h2: "wf_regkey (hkcu (registry installed_world))"
    by (simp add: installed_world_def installed_registry_def prog_id_tree_def)
  have t: "lookup [''Software'', ''Classes'', ''MoleditPy.File''] (hkcu (registry installed_world))
      = Some prog_id_tree"
    by (simp add: installed_world_def installed_registry_def child_def)
  have d: "deleted (registry installed_world) = []"
    by (simp add: installed_world_def installed_registry_def)
  have p: "postorder [''Software'', ''Classes'', ''MoleditPy.File''] prog_id_tree =
     [[''Software'', ''Classes'', ''MoleditPy.File'', ''DefaultIcon''],
      [''Software'', ''Classes'', ''MoleditPy.File'', ''shell'', ''open'', ''command''],
      [''Software'', ''Classes'', ''MoleditPy.File'', ''shell'', ''open''],
      [''Software'', ''Classes'', ''MoleditPy.File'', ''shell''],
      [''Software'', ''Classes'', ''MoleditPy.File'']]"
    by (simp add: prog_id_tree_def)
  from unregister_removes_tree[OF h1 h2] t d p h1 h2 show ?thesis
    by (metis append.right_neutral append_Nil)
qed

section \<open>Where the executable is looked for (lines 60-104)\<close>

lemma find_executable_cases:
  "find_executable name w =
     (case local_candidate name w of
        Inl e \<Rightarrow> (Inl e, w)
      | Inr c \<Rightarrow>
          if is_file w c \<and> access_x w c then
            (case normalize_candidate w c of
               Inl e \<Rightarrow> (Inl e, w)
             | Inr c' \<Rightarrow> (Inr (Some (str_path w c')),
                          w\<lparr>stdout := stdout w @ [''Found executable in local directory: '' @ str_path w c']\<rparr>))
          else if truthy (which w name) then
            (Inr (Some (normalize_which w (fmt (which w name)))),
             w\<lparr>stdout := stdout w @ [''Found executable in system PATH: '' @ normalize_which w (fmt (which w name))]\<rparr>)
          else (Inr None, w))"
  by (simp add: find_executable_def bind_io_def read_world_def print_def return_io_def
        split: sum.splits)






lemma moleditpy_suffix: "suffix (p @ [''moleditpy'']) = []"
  by (simp add: suffix_def path_name_def rfind_dot_def)

lemma moleditpy_exe_suffix: "suffix (p @ [''moleditpy.exe'']) = ''.exe''"
  by (simp add: suffix_def path_name_def rfind_dot_def)

lemma local_candidate_windows:
  "platform_system w = ''Windows'' \<Longrightarrow>
     local_candidate ''moleditpy'' w = Inr (script_dir w @ [''moleditpy.exe''])"
  by (simp add: local_candidate_def joinpath_def moleditpy_suffix with_suffix_def path_name_def)


section \<open>Running \<open>install\<close> step by step\<close>

text \<open>
  The icon lookup and the search for the executable only print; the lemmas below give the
  world after each step of \<open>install\<close>, on each platform.
\<close>

definition only_prints :: "world \<Rightarrow> world \<Rightarrow> bool" where
  "only_prints w w' = (\<exists>msgs. w' = w\<lparr>stdout := stdout w @ msgs\<rparr>)"

lemma only_prints_refl: "only_prints w w"
  unfolding only_prints_def by (rule exI[of _ "[]"]) simp

lemma only_prints_print: "only_prints w w' \<Longrightarrow> only_prints w (w'\<lparr>stdout := stdout w' @ ms\<rparr>)"
  unfolding only_prints_def by auto

lemma get_icon_path_eval:
  "\<exists>icon. fst (get_icon_path w) = Inr icon \<and> only_prints w (snd (get_icon_path w))"
  by (auto simp: get_icon_path_def bind_io_def try_io_def read_world_def print_def return_io_def
        path_exists_def path_stat_def Let_def only_prints_refl only_prints_print
        split: sum.splits option.splits)

lemma find_executable_shape:
  "(\<exists>e. find_executable name w = (Inl e, w)) \<or>
   find_executable name w = (Inr None, w) \<or>
   (\<exists>p m. find_executable name w = (Inr (Some p), w\<lparr>stdout := stdout w @ [m]\<rparr>))"
proof (cases "local_candidate name w")
  case (Inl e)
  then have "find_executable name w = (Inl e, w)" by (simp add: find_executable_cases)
  then show ?thesis by blast
next
  case (Inr c)
  show ?thesis
  proof (cases "is_file w c \<and> access_x w c")
    case True
    show ?thesis
    proof (cases "normalize_candidate w c")
      case (Inl e)
      then have "find_executable name w = (Inl e, w)"
        using Inr True by (simp add: find_executable_cases)
      then show ?thesis by blast
    next
      case c': (Inr c')
      have "find_executable name w = (Inr (Some (str_path w c')),
          w\<lparr>stdout := stdout w @ [''Found executable in local directory: '' @ str_path w c']\<rparr>)"
        using Inr True c' by (simp add: find_executable_cases)
      then show ?thesis by blast
    qed
  next
    case False
    show ?thesis
    proof (cases "truthy (which w name)")
      case True
      have "find_executable name w = (Inr (Some (normalize_which w (fmt (which w name)))),
             w\<lparr>stdout := stdout w @ [''Found executable in system PATH: '' @ normalize_which w (fmt (which w name))]\<rparr>)"
        using Inr False True by (auto simp: find_executable_cases)
      then show ?thesis by blast
    next
      case nt: False
      have "find_executable name w = (Inr None, w)"
        using Inr False nt by (auto simp: find_executable_cases)
      then show ?thesis by blast
    qed
  qed
qed

lemma find_executable_none:
  "fst (find_executable name w) = Inr None \<Longrightarrow> find_executable name w = (Inr None, w)"
  using find_executable_shape[of name w] by auto

lemma find_executable_some:
  "fst (find_executable name w) = Inr (Some p) \<Longrightarrow>
     \<exists>m. find_executable name w = (Inr (Some p), w\<lparr>stdout := stdout w @ [m]\<rparr>)"
  using find_executable_shape[of name w] by auto

lemma reads_stdout:
  "local_candidate name (w\<lparr>stdout := s\<rparr>) = local_candidate name w"
  "normalize_candidate (w\<lparr>stdout := s\<rparr>) c = normalize_candidate w c"
  "normalize_which (w\<lparr>stdout := s\<rparr>) x = normalize_which w x"
  "is_file (w\<lparr>stdout := s\<rparr>) c = is_file w c"
  "access_x (w\<lparr>stdout := s\<rparr>) c = access_x w c"
  "str_path (w\<lparr>stdout := s\<rparr>) c = str_path w c"
  by (simp_all add: local_candidate_def normalize_candidate_def normalize_which_def is_file_def
        access_x_def str_path_def path_sep_def)

lemma find_executable_stdout:
  "fst (find_executable name (w\<lparr>stdout := s\<rparr>)) = fst (find_executable name w)"
  by (simp add: find_executable_cases reads_stdout split: sum.splits)

lemma local_candidate_command:
  "\<exists>c. local_candidate command_name w = Inr c"
  by (simp add: local_candidate_def command_name_def joinpath_def with_suffix_def path_name_def
        Let_def)


text \<open>The start of \<open>install\<close>, up to the search.\<close>

definition searching :: string where
  "searching = ''Searching for the executable 'moleditpy'...''"

lemma install_start:
  "\<exists>icon pre. fst (get_icon_path w) = Inr icon \<and>
     install w =
       (case find_executable command_name (w\<lparr>stdout := pre @ [searching]\<rparr>) of
          (Inl e, w') \<Rightarrow> (Inl e, w')
        | (Inr r, w') \<Rightarrow>
            if \<not> truthy r then report_not_found w'
            else install_found icon (environ w ''CONDA_DEFAULT_ENV'') (environ w ''CONDA_EXE'')
                   (fmt r) w')"
proof -
  obtain icon msgs where i: "get_icon_path w = (Inr icon, w\<lparr>stdout := stdout w @ msgs\<rparr>)"
    using get_icon_path_eval[of w] unfolding only_prints_def
    by (metis prod.collapse)
  show ?thesis
  proof (cases "truthy icon")
    case True
    have "install w =
       (case find_executable command_name (w\<lparr>stdout := (stdout w @ msgs) @ [searching]\<rparr>) of
          (Inl e, w') \<Rightarrow> (Inl e, w')
        | (Inr r, w') \<Rightarrow>
            if \<not> truthy r then report_not_found w'
            else install_found icon (environ w ''CONDA_DEFAULT_ENV'') (environ w ''CONDA_EXE'')
                   (fmt r) w')"
      using True
      by (simp add: install_def bind_io_def i return_io_def read_world_def print_def searching_def
            split: prod.split sum.split)
    then show ?thesis using i by (intro exI[of _ icon] exI) (rule conjI, simp, assumption)
  next
    case False
    have "install w =
       (case find_executable command_name
          (w\<lparr>stdout := (stdout w @ msgs @
              [''Warning: Could not find a suitable icon file. A default icon will be used.''])
              @ [searching]\<rparr>) of
          (Inl e, w') \<Rightarrow> (Inl e, w')
        | (Inr r, w') \<Rightarrow>
            if \<not> truthy r then report_not_found w'
            else install_found icon (environ w ''CONDA_DEFAULT_ENV'') (environ w ''CONDA_EXE'')
                   (fmt r) w')"
      using False
      by (simp add: install_def bind_io_def i return_io_def read_world_def print_def searching_def
            split: prod.split sum.split)
    then show ?thesis using i by (intro exI[of _ icon] exI) (rule conjI, simp, assumption)
  qed
qed

lemma install_not_found:
  assumes "fst (find_executable command_name w) = Inr None"
  shows "\<exists>pre. install w = report_not_found (w\<lparr>stdout := pre @ [searching]\<rparr>)"
proof -
  obtain icon pre where i: "install w =
       (case find_executable command_name (w\<lparr>stdout := pre @ [searching]\<rparr>) of
          (Inl e, w') \<Rightarrow> (Inl e, w')
        | (Inr r, w') \<Rightarrow>
            if \<not> truthy r then report_not_found w'
            else install_found icon (environ w ''CONDA_DEFAULT_ENV'') (environ w ''CONDA_EXE'')
                   (fmt r) w')"
    using install_start by blast
  have "find_executable command_name (w\<lparr>stdout := pre @ [searching]\<rparr>)
      = (Inr None, w\<lparr>stdout := pre @ [searching]\<rparr>)"
    using assms by (intro find_executable_none) (simp add: find_executable_stdout)
  then have "install w = report_not_found (w\<lparr>stdout := pre @ [searching]\<rparr>)"
    unfolding i by (simp add: truthy_def)
  then show ?thesis by blast
qed

lemma install_located:
  assumes "fst (find_executable command_name w) = Inr (Some p)" and "p \<noteq> []"
  shows "\<exists>icon s. fst (get_icon_path w) = Inr icon \<and>
           install w = install_found icon (environ w ''CONDA_DEFAULT_ENV'')
                         (environ w ''CONDA_EXE'') p (w\<lparr>stdout := s\<rparr>)"
proof -
  obtain icon pre where g: "fst (get_icon_path w) = Inr icon" and i: "install w =
       (case find_executable command_name (w\<lparr>stdout := pre @ [searching]\<rparr>) of
          (Inl e, w') \<Rightarrow> (Inl e, w')
        | (Inr r, w') \<Rightarrow>
            if \<not> truthy r then report_not_found w'
            else install_found icon (environ w ''CONDA_DEFAULT_ENV'') (environ w ''CONDA_EXE'')
                   (fmt r) w')"
    using install_start by blast
  have "fst (find_executable command_name (w\<lparr>stdout := pre @ [searching]\<rparr>)) = Inr (Some p)"
    using assms(1) by (simp add: find_executable_stdout)
  then obtain m where "find_executable command_name (w\<lparr>stdout := pre @ [searching]\<rparr>)
      = (Inr (Some p), w\<lparr>stdout := pre @ [searching]\<rparr>\<lparr>stdout := stdout (w\<lparr>stdout := pre @ [searching]\<rparr>) @ [m]\<rparr>)"
    using find_executable_some by blast
  then have "install w = install_found icon (environ w ''CONDA_DEFAULT_ENV'')
                         (environ w ''CONDA_EXE'') p (w\<lparr>stdout := pre @ [searching, m]\<rparr>)"
    unfolding i using assms(2) by (simp add: truthy_def fmt_def)
  then show ?thesis using g by blast
qed

definition shortcut_report :: "string option \<Rightarrow> string \<Rightarrow> string" where
  "shortcut_report err done = (case err of None \<Rightarrow> done | Some msg \<Rightarrow> ''Failed to create shortcut: '' @ msg)"

definition created :: "string option \<Rightarrow> shortcut_call \<Rightarrow> shortcut_call list" where
  "created err c = (case err of None \<Rightarrow> [c] | Some msg \<Rightarrow> [])"

lemma make_shortcut_eval:
  "make_shortcut c w =
     (case make_shortcut_error w c of None \<Rightarrow> Inr () | Some msg \<Rightarrow> Inl (OtherException, msg),
      w\<lparr>make_shortcut_calls := make_shortcut_calls w @ [c],
        shortcuts := shortcuts w @ created (make_shortcut_error w c) c\<rparr>)"
  by (simp add: make_shortcut_def created_def Let_def split: option.split)

lemma create_shortcut_menu:
  assumes "system = ''Windows'' \<or> system = ''Linux''"
  shows "create_shortcut system target icon_path w =
     (Inr True,
      w\<lparr>make_shortcut_calls := make_shortcut_calls w @ [menu_shortcut (full_command target) icon_path],
        shortcuts := shortcuts w @
          created (make_shortcut_error w (menu_shortcut (full_command target) icon_path))
            (menu_shortcut (full_command target) icon_path),
        stdout := stdout w @
          [''Creating 'MoleditPy' shortcut...'',
           ''Targeting: '' @ fst target @ '' '' @ snd target,
           shortcut_report (make_shortcut_error w (menu_shortcut (full_command target) icon_path))
             ''Successfully created 'MoleditPy' in the application menu.'']\<rparr>)"
proof (cases "make_shortcut_error w (menu_shortcut (full_command target) icon_path)")
  case None
  then show ?thesis using assms
    by (simp add: create_shortcut_def try_io_def bind_io_def print_def return_io_def
          make_shortcut_eval shortcut_report_def created_def)
next
  case (Some msg)
  then show ?thesis using assms
    by (simp add: create_shortcut_def try_io_def bind_io_def print_def return_io_def
          make_shortcut_eval shortcut_report_def created_def)
qed

lemma create_shortcut_app:
  assumes "system = ''Darwin''"
  shows "create_shortcut system target icon_path w =
     (Inr True,
      w\<lparr>make_shortcut_calls := make_shortcut_calls w @ [app_shortcut (full_command target) icon_path],
        shortcuts := shortcuts w @
          created (make_shortcut_error w (app_shortcut (full_command target) icon_path))
            (app_shortcut (full_command target) icon_path),
        stdout := stdout w @
          [''Creating 'MoleditPy' shortcut...'',
           ''Targeting: '' @ fst target @ '' '' @ snd target,
           ''macOS detected. Creating application in /Applications folder...'',
           shortcut_report (make_shortcut_error w (app_shortcut (full_command target) icon_path))
             ''Successfully created 'MoleditPy' in /Applications.'']\<rparr>)"
proof (cases "make_shortcut_error w (app_shortcut (full_command target) icon_path)")
  case None
  then show ?thesis using assms
    by (simp add: create_shortcut_def try_io_def bind_io_def print_def return_io_def
          make_shortcut_eval shortcut_report_def created_def)
next
  case (Some msg)
  then show ?thesis using assms
    by (simp add: create_shortcut_def try_io_def bind_io_def print_def return_io_def
          make_shortcut_eval shortcut_report_def created_def)
qed


definition conda_lines :: "string option \<Rightarrow> string option \<Rightarrow> string list" where
  "conda_lines conda_env conda_exe =
     (if truthy conda_env \<and> truthy conda_exe \<and> conda_env \<noteq> Some ''base''
      then [''Conda environment detected: '' @ fmt conda_env] else [])"

lemma registered_frame:
  "registered p icon_path (w\<lparr>make_shortcut_calls := a, shortcuts := b, stdout := c\<rparr>)
     = registered p icon_path w"
  by (simp add: registered_def os_path_exists_def)

definition registration_lines :: "string list" where
  "registration_lines =
     [''Registering file associations...'',
      ''  Associated .pmeprj with MoleditPy'', ''  Associated .pmeraw with MoleditPy'',
      ''File associations registered successfully.'',
      newline @ ''You can remove the shortcut and file associations by running:'',
      ''  moleditpy-installer --remove'']"

definition creation_lines :: "string \<times> string \<Rightarrow> string list" where
  "creation_lines target =
     [''Creating 'MoleditPy' shortcut...'', ''Targeting: '' @ fst target @ '' '' @ snd target]"

lemma install_found_windows:
  assumes "platform_system w = ''Windows''" and "p \<noteq> []"
  shows "install_found icon_path conda_env conda_exe p w =
     (Inr (),
      w\<lparr>make_shortcut_calls := make_shortcut_calls w @
          [menu_shortcut (full_command (shortcut_target conda_env conda_exe p)) icon_path],
        shortcuts := shortcuts w @
          created (make_shortcut_error w
                     (menu_shortcut (full_command (shortcut_target conda_env conda_exe p)) icon_path))
            (menu_shortcut (full_command (shortcut_target conda_env conda_exe p)) icon_path),
        registry := registered p icon_path w,
        stdout := stdout w @ conda_lines conda_env conda_exe @
          creation_lines (shortcut_target conda_env conda_exe p) @
          [shortcut_report (make_shortcut_error w
              (menu_shortcut (full_command (shortcut_target conda_env conda_exe p)) icon_path))
             ''Successfully created 'MoleditPy' in the application menu.''] @
          registration_lines\<rparr>)"
  using assms
  by (simp add: install_found_def bind_io_def read_world_def print_def return_io_def
        create_shortcut_menu register_eval registered_frame conda_lines_def creation_lines_def
        registration_lines_def)

lemma install_found_linux:
  assumes "platform_system w = ''Linux''"
  shows "install_found icon_path conda_env conda_exe p w =
     (Inr (),
      w\<lparr>make_shortcut_calls := make_shortcut_calls w @
          [menu_shortcut (full_command (shortcut_target conda_env conda_exe p)) icon_path],
        shortcuts := shortcuts w @
          created (make_shortcut_error w
                     (menu_shortcut (full_command (shortcut_target conda_env conda_exe p)) icon_path))
            (menu_shortcut (full_command (shortcut_target conda_env conda_exe p)) icon_path),
        stdout := stdout w @ conda_lines conda_env conda_exe @
          creation_lines (shortcut_target conda_env conda_exe p) @
          [shortcut_report (make_shortcut_error w
              (menu_shortcut (full_command (shortcut_target conda_env conda_exe p)) icon_path))
             ''Successfully created 'MoleditPy' in the application menu.'']\<rparr>)"
  using assms
  by (simp add: install_found_def bind_io_def read_world_def print_def return_io_def
        create_shortcut_menu conda_lines_def creation_lines_def)

lemma install_found_darwin:
  assumes "platform_system w = ''Darwin''"
  shows "install_found icon_path conda_env conda_exe p w =
     (Inr (),
      w\<lparr>make_shortcut_calls := make_shortcut_calls w @
          [app_shortcut (full_command (shortcut_target conda_env conda_exe p)) icon_path],
        shortcuts := shortcuts w @
          created (make_shortcut_error w
                     (app_shortcut (full_command (shortcut_target conda_env conda_exe p)) icon_path))
            (app_shortcut (full_command (shortcut_target conda_env conda_exe p)) icon_path),
        stdout := stdout w @ conda_lines conda_env conda_exe @
          creation_lines (shortcut_target conda_env conda_exe p) @
          [''macOS detected. Creating application in /Applications folder...'',
           shortcut_report (make_shortcut_error w
              (app_shortcut (full_command (shortcut_target conda_env conda_exe p)) icon_path))
             ''Successfully created 'MoleditPy' in /Applications.'']\<rparr>)"
  using assms
  by (simp add: install_found_def bind_io_def read_world_def print_def return_io_def
        create_shortcut_app conda_lines_def creation_lines_def)


text \<open>The platforms on which \<open>install\<close> creates a shortcut.\<close>

definition supported :: "world \<Rightarrow> bool" where
  "supported w = (platform_system w = ''Windows'' \<or> platform_system w = ''Linux'' \<or>
                  platform_system w = ''Darwin'')"

lemma install_script:
  assumes "fst (find_executable command_name w) = Inr (Some p)" and "p \<noteq> []" and "supported w"
  shows "fst (install w) = Inr () \<and>
         map script (make_shortcut_calls (snd (install w))) =
           map script (make_shortcut_calls w) @
             [full_command (shortcut_target (environ w ''CONDA_DEFAULT_ENV'')
                              (environ w ''CONDA_EXE'') p)]"
proof -
  obtain icon s where i: "install w = install_found icon (environ w ''CONDA_DEFAULT_ENV'')
                         (environ w ''CONDA_EXE'') p (w\<lparr>stdout := s\<rparr>)"
    using install_located[OF assms(1,2)] by blast
  consider "platform_system (w\<lparr>stdout := s\<rparr>) = ''Windows''"
    | "platform_system (w\<lparr>stdout := s\<rparr>) = ''Linux''"
    | "platform_system (w\<lparr>stdout := s\<rparr>) = ''Darwin''"
    using assms(3) by (auto simp: supported_def)
  then show ?thesis
  proof cases
    case 1
    show ?thesis unfolding i install_found_windows[OF 1 assms(2)]
      by (simp add: menu_shortcut_def)
  next
    case 2
    show ?thesis unfolding i install_found_linux[OF 2]
      by (simp add: menu_shortcut_def)
  next
    case 3
    show ?thesis unfolding i install_found_darwin[OF 3]
      by (simp add: app_shortcut_def)
  qed
qed

lemma install_windows:
  assumes "fst (find_executable command_name w) = Inr (Some p)" and "p \<noteq> []"
    and "platform_system w = ''Windows''"
  shows "\<exists>icon s c. install w =
     (Inr (),
      w\<lparr>make_shortcut_calls := make_shortcut_calls w @ [c],
        shortcuts := shortcuts w @ created (make_shortcut_error w c) c,
        registry := registered p icon w,
        stdout := s @
          [shortcut_report (make_shortcut_error w c)
             ''Successfully created 'MoleditPy' in the application menu.''] @
          registration_lines\<rparr>)"
proof -
  obtain icon s where i: "install w = install_found icon (environ w ''CONDA_DEFAULT_ENV'')
                         (environ w ''CONDA_EXE'') p (w\<lparr>stdout := s\<rparr>)"
    using install_located[OF assms(1,2)] by blast
  have 1: "platform_system (w\<lparr>stdout := s\<rparr>) = ''Windows''" using assms(3) by simp
  let ?t = "shortcut_target (environ w ''CONDA_DEFAULT_ENV'') (environ w ''CONDA_EXE'') p"
  let ?c = "menu_shortcut (full_command ?t) icon"
  have r: "registered p icon (w\<lparr>stdout := s\<rparr>) = registered p icon w"
    by (simp add: registered_def os_path_exists_def)
  have "install w =
     (Inr (),
      w\<lparr>make_shortcut_calls := make_shortcut_calls w @ [?c],
        shortcuts := shortcuts w @ created (make_shortcut_error w ?c) ?c,
        registry := registered p icon w,
        stdout := (s @ conda_lines (environ w ''CONDA_DEFAULT_ENV'') (environ w ''CONDA_EXE'') @
                   creation_lines ?t) @
          [shortcut_report (make_shortcut_error w ?c)
             ''Successfully created 'MoleditPy' in the application menu.''] @
          registration_lines\<rparr>)"
    unfolding i install_found_windows[OF 1 assms(2)] r by simp
  then show ?thesis by blast
qed

lemma find_executable_local_windows:
  assumes "platform_system w = ''Windows''"
    and "files w (script_dir w @ [''moleditpy.exe'']) = Some (File True)"
  shows "fst (find_executable command_name w)
           = Inr (Some (str_path w (script_dir w @ [''moleditpy.exe''])))"
proof -
  have c: "local_candidate command_name w = Inr (script_dir w @ [''moleditpy.exe''])"
    using local_candidate_windows[OF assms(1)] by (simp add: command_name_def)
  have n: "normalize_candidate w (script_dir w @ [''moleditpy.exe''])
             = Inr (script_dir w @ [''moleditpy.exe''])"
    by (simp add: normalize_candidate_def moleditpy_exe_suffix)
  show ?thesis using assms(2) by (simp add: find_executable_cases c n is_file_def access_x_def)
qed

lemma find_executable_local_posix:
  assumes "platform_system w \<noteq> ''Windows''"
    and "files w (script_dir w @ [''moleditpy'']) = Some (File True)"
  shows "fst (find_executable command_name w)
           = Inr (Some (str_path w (script_dir w @ [''moleditpy''])))"
proof -
  have c: "local_candidate command_name w = Inr (script_dir w @ [''moleditpy''])"
    using assms(1) by (simp add: local_candidate_def command_name_def joinpath_def)
  have n: "normalize_candidate w (script_dir w @ [''moleditpy''])
             = Inr (script_dir w @ [''moleditpy''])"
    using assms(1) by (simp add: normalize_candidate_def)
  show ?thesis using assms(2) by (simp add: find_executable_cases c n is_file_def access_x_def)
qed

lemma find_executable_nowhere:
  assumes "\<And>p. files w p = None" and "which w command_name = None"
  shows "fst (find_executable command_name w) = Inr None"
proof -
  obtain c where c: "local_candidate command_name w = Inr c"
    using local_candidate_command by blast
  show ?thesis using assms by (simp add: find_executable_cases c is_file_def truthy_def)
qed

section \<open>The command line of the shortcut (lines 291-323)\<close>

definition linux_world :: world where
  "linux_world =
     \<lparr>platform_system = ''Linux'',
      environ = (\<lambda>v. None),
      script_dir = [''/x''],
      home = Some [''/home/u''],
      files = (\<lambda>p. if p = [''/x'', ''moleditpy''] then Some (File True) else None),
      stat_error = (\<lambda>p. None),
      remove_error = (\<lambda>p. None),
      which = (\<lambda>n. None),
      resource = (\<lambda>n. Inr (''/pkg/data/'' @ n)),
      make_shortcut_error = (\<lambda>c. None),
      make_shortcut_calls = [],
      shortcuts = [],
      registry = no_registry,
      stdout = []\<rparr>"

definition conda_world :: world where
  "conda_world =
     linux_world\<lparr>environ := (\<lambda>v. if v = ''CONDA_DEFAULT_ENV'' then Some ''envA''
                                  else if v = ''CONDA_EXE'' then Some ''/opt/conda/bin/conda''
                                  else None)\<rparr>"

definition base_world :: world where
  "base_world =
     linux_world\<lparr>environ := (\<lambda>v. if v = ''CONDA_DEFAULT_ENV'' then Some ''base''
                                  else if v = ''CONDA_EXE'' then Some ''/opt/conda/bin/conda''
                                  else None)\<rparr>"

definition no_runner_world :: world where
  "no_runner_world =
     linux_world\<lparr>environ := (\<lambda>v. if v = ''CONDA_DEFAULT_ENV'' then Some ''envA'' else None)\<rparr>"

lemma linux_worlds_found:
  "fst (find_executable command_name conda_world) = Inr (Some ''/x/moleditpy'')"
  "fst (find_executable command_name base_world) = Inr (Some ''/x/moleditpy'')"
  "fst (find_executable command_name no_runner_world) = Inr (Some ''/x/moleditpy'')"
  by (simp_all add: find_executable_local_posix conda_world_def base_world_def no_runner_world_def
        linux_world_def str_path_def path_sep_def)

lemma linux_worlds_supported:
  "supported conda_world" "supported base_world" "supported no_runner_world"
  by (simp_all add: supported_def conda_world_def base_world_def no_runner_world_def
        linux_world_def)

text \<open>
  Claim C2, as the specification states it, fails: with the environment \<open>envA\<close>, the runner
  \<open>/opt/conda/bin/conda\<close> and the executable \<open>/x/moleditpy\<close>, the command handed to
  \<open>make_shortcut\<close> has the runner in double quotes (line 320); and with the environment
  \<open>envA\<close> but no runner, the command is the bare path, not a \<open>run -n\<close> command.
\<close>

theorem shortcut_command_counterexample:
  "map script (make_shortcut_calls (snd (install conda_world)))
     = [''\"/opt/conda/bin/conda\" run -n envA \"/x/moleditpy\"''] \<and>
   map script (make_shortcut_calls (snd (install conda_world)))
     \<noteq> [''/opt/conda/bin/conda run -n envA \"/x/moleditpy\"''] \<and>
   environ no_runner_world ''CONDA_DEFAULT_ENV'' = Some ''envA'' \<and>
   map script (make_shortcut_calls (snd (install no_runner_world))) = [''/x/moleditpy'']"
proof -
  have a: "map script (make_shortcut_calls (snd (install conda_world)))
     = [''\"/opt/conda/bin/conda\" run -n envA \"/x/moleditpy\"'']"
    using install_script[OF linux_worlds_found(1) _ linux_worlds_supported(1)]
    by (simp add: conda_world_def linux_world_def shortcut_target_def full_command_def truthy_def
          fmt_def dquote_def)
  have b: "map script (make_shortcut_calls (snd (install no_runner_world))) = [''/x/moleditpy'']"
    using install_script[OF linux_worlds_found(3) _ linux_worlds_supported(3)]
    by (simp add: no_runner_world_def linux_world_def shortcut_target_def full_command_def
          truthy_def)
  have c: "environ no_runner_world ''CONDA_DEFAULT_ENV'' = Some ''envA''"
    by (simp add: no_runner_world_def)
  show ?thesis unfolding a b using c by simp
qed

text \<open>
  Claim C2, amended. In every install run that finds the executable \<open>p\<close> on Windows, Linux
  or macOS, \<open>make_shortcut\<close> is called once. When the environment name and the runner path
  are both set and not empty and the name is not \<open>base\<close>, its command is the runner in
  double quotes, then \<open>run -n\<close>, the name, and \<open>p\<close> in double quotes. In every other case
  (no name, the name \<open>base\<close>, or no runner) the command is \<open>p\<close> alone, without quotes.
\<close>

theorem shortcut_command:
  assumes "fst (find_executable command_name w) = Inr (Some p)" and "p \<noteq> []" and "supported w"
  shows "(\<forall>env exe. environ w ''CONDA_DEFAULT_ENV'' = Some env \<and> environ w ''CONDA_EXE'' = Some exe \<and>
             env \<noteq> [] \<and> exe \<noteq> [] \<and> env \<noteq> ''base'' \<longrightarrow>
            map script (make_shortcut_calls (snd (install w))) =
              map script (make_shortcut_calls w) @
                [''\"'' @ exe @ ''\" run -n '' @ env @ '' \"'' @ p @ ''\"'']) \<and>
         (\<not> (truthy (environ w ''CONDA_DEFAULT_ENV'') \<and> truthy (environ w ''CONDA_EXE'') \<and>
              environ w ''CONDA_DEFAULT_ENV'' \<noteq> Some ''base'') \<longrightarrow>
            map script (make_shortcut_calls (snd (install w))) =
              map script (make_shortcut_calls w) @ [p])"
proof (intro conjI allI impI)
  fix env exe
  assume "environ w ''CONDA_DEFAULT_ENV'' = Some env \<and> environ w ''CONDA_EXE'' = Some exe \<and>
             env \<noteq> [] \<and> exe \<noteq> [] \<and> env \<noteq> ''base''"
  then have "full_command (shortcut_target (environ w ''CONDA_DEFAULT_ENV'')
                              (environ w ''CONDA_EXE'') p)
      = ''\"'' @ exe @ ''\" run -n '' @ env @ '' \"'' @ p @ ''\"''"
    by (simp add: shortcut_target_def full_command_def truthy_def fmt_def dquote_def)
  then show "map script (make_shortcut_calls (snd (install w))) =
              map script (make_shortcut_calls w) @
                [''\"'' @ exe @ ''\" run -n '' @ env @ '' \"'' @ p @ ''\"'']"
    using install_script[OF assms] by simp
next
  assume "\<not> (truthy (environ w ''CONDA_DEFAULT_ENV'') \<and> truthy (environ w ''CONDA_EXE'') \<and>
              environ w ''CONDA_DEFAULT_ENV'' \<noteq> Some ''base'')"
  then have "full_command (shortcut_target (environ w ''CONDA_DEFAULT_ENV'')
                              (environ w ''CONDA_EXE'') p) = p"
    by (simp add: shortcut_target_def full_command_def)
  then show "map script (make_shortcut_calls (snd (install w))) =
              map script (make_shortcut_calls w) @ [p]"
    using install_script[OF assms] by simp
qed

theorem shortcut_command_witness:
  "fst (find_executable command_name base_world) = Inr (Some ''/x/moleditpy'') \<and>
   supported base_world \<and>
   environ base_world ''CONDA_DEFAULT_ENV'' = Some ''base'' \<and>
   map script (make_shortcut_calls (snd (install base_world))) = [''/x/moleditpy'']"
proof -
  have e: "environ base_world ''CONDA_DEFAULT_ENV'' = Some ''base''"
    "make_shortcut_calls base_world = []"
    by (simp_all add: base_world_def linux_world_def)
  from shortcut_command[OF linux_worlds_found(2) _ linux_worlds_supported(2)] e
  have "map script (make_shortcut_calls (snd (install base_world))) = [''/x/moleditpy'']"
    by simp
  then show ?thesis using linux_worlds_found(2) linux_worlds_supported(2) e(1) by blast
qed

text \<open>
  Claim C10. In every install run that finds the executable \<open>p\<close> on Windows, Linux or
  macOS with \<open>CONDA_DEFAULT_ENV\<close> set to a name that is not empty and not \<open>base\<close>, but with
  \<open>CONDA_EXE\<close> unset or empty, the command handed to \<open>make_shortcut\<close> is \<open>p\<close> alone, as
  without any environment.
\<close>

theorem no_runner_no_wrapping:
  assumes "fst (find_executable command_name w) = Inr (Some p)" and "p \<noteq> []" and "supported w"
    and "environ w ''CONDA_DEFAULT_ENV'' = Some env" and "env \<noteq> []" and "env \<noteq> ''base''"
    and "environ w ''CONDA_EXE'' = None \<or> environ w ''CONDA_EXE'' = Some []"
  shows "fst (install w) = Inr () \<and>
         map script (make_shortcut_calls (snd (install w))) =
           map script (make_shortcut_calls w) @ [p]"
proof -
  have "\<not> truthy (environ w ''CONDA_EXE'')" using assms(7) by (auto simp: truthy_def)
  then have "full_command (shortcut_target (environ w ''CONDA_DEFAULT_ENV'')
                              (environ w ''CONDA_EXE'') p) = p"
    by (simp add: shortcut_target_def full_command_def)
  then show ?thesis using install_script[OF assms(1-3)] by simp
qed

theorem no_runner_no_wrapping_witness:
  "fst (find_executable command_name no_runner_world) = Inr (Some ''/x/moleditpy'') \<and>
   supported no_runner_world \<and>
   environ no_runner_world ''CONDA_DEFAULT_ENV'' = Some ''envA'' \<and>
   environ no_runner_world ''CONDA_EXE'' = None \<and>
   map script (make_shortcut_calls (snd (install no_runner_world))) = [''/x/moleditpy'']"
proof -
  have e: "environ no_runner_world ''CONDA_DEFAULT_ENV'' = Some ''envA''"
    "environ no_runner_world ''CONDA_EXE'' = None"
    "make_shortcut_calls no_runner_world = []"
    by (simp_all add: no_runner_world_def linux_world_def)
  from no_runner_no_wrapping[OF linux_worlds_found(3) _ linux_worlds_supported(3) e(1)] e
  have "map script (make_shortcut_calls (snd (install no_runner_world))) = [''/x/moleditpy'']"
    by simp
  then show ?thesis using linux_worlds_found(3) linux_worlds_supported(3) e(1,2) by blast
qed

section \<open>The steps of \<open>install\<close> and their failures (lines 283-356)\<close>

definition conda_windows_world :: world where
  "conda_windows_world =
     windows_world\<lparr>environ := (\<lambda>v. if v = ''CONDA_DEFAULT_ENV'' then Some ''envA''
                                    else if v = ''CONDA_EXE'' then Some ''conda.exe''
                                    else None)\<rparr>"

definition failing_world :: world where
  "failing_world = windows_world\<lparr>make_shortcut_error := (\<lambda>c. Some ''disk full'')\<rparr>"

definition bare_world :: world where
  "bare_world = windows_world\<lparr>files := (\<lambda>p. None)\<rparr>"

lemma windows_worlds_found:
  "fst (find_executable command_name conda_windows_world)
     = Inr (Some (''C:'' @ backslash @ ''Tools'' @ backslash @ ''moleditpy.exe''))"
  "fst (find_executable command_name failing_world)
     = Inr (Some (''C:'' @ backslash @ ''Tools'' @ backslash @ ''moleditpy.exe''))"
  by (simp_all add: find_executable_local_windows conda_windows_world_def failing_world_def
        windows_world_def str_path_def path_sep_def)

text \<open>
  Claim C6. In every install run on Windows that finds the executable \<open>p\<close> and wraps the
  shortcut command in the environment runner, the open command written to the registry
  is \<open>p\<close> itself in double quotes followed by \<open>"%1"\<close>: the association starts the
  executable, not the runner, while the shortcut command is the \<open>run -n\<close> command.
\<close>

theorem association_not_wrapped:
  assumes "fst (find_executable command_name w) = Inr (Some p)" and "p \<noteq> []"
    and "platform_system w = ''Windows''"
    and "environ w ''CONDA_DEFAULT_ENV'' = Some env" and "environ w ''CONDA_EXE'' = Some exe"
    and "env \<noteq> []" and "exe \<noteq> []" and "env \<noteq> ''base''"
  shows "map script (make_shortcut_calls (snd (install w))) =
           map script (make_shortcut_calls w) @
             [''\"'' @ exe @ ''\" run -n '' @ env @ '' \"'' @ p @ ''\"''] \<and>
         value_at [''Software'', ''Classes'', ''MoleditPy.File'', ''shell'', ''open'', ''command'']
           (hkcu (registry (snd (install w)))) = Some (Some (''\"'' @ p @ ''\" \"%1\"''))"
proof -
  have s: "supported w" using assms(3) by (simp add: supported_def)
  have "full_command (shortcut_target (environ w ''CONDA_DEFAULT_ENV'')
                              (environ w ''CONDA_EXE'') p)
      = ''\"'' @ exe @ ''\" run -n '' @ env @ '' \"'' @ p @ ''\"''"
    using assms(4-8)
    by (simp add: shortcut_target_def full_command_def truthy_def fmt_def dquote_def)
  then have a: "map script (make_shortcut_calls (snd (install w))) =
           map script (make_shortcut_calls w) @
             [''\"'' @ exe @ ''\" run -n '' @ env @ '' \"'' @ p @ ''\"'']"
    using install_script[OF assms(1,2) s] by simp
  obtain icon where "registry (snd (install w)) = registered p icon w"
    using install_windows[OF assms(1-3)] by fastforce
  then have "value_at (classes_key prog_id @ [''shell'', ''open'', ''command''])
           (hkcu (registry (snd (install w)))) = Some (Some (open_command p))"
    by (simp add: registered_command)
  then have b: "value_at [''Software'', ''Classes'', ''MoleditPy.File'', ''shell'', ''open'', ''command'']
           (hkcu (registry (snd (install w)))) = Some (Some (''\"'' @ p @ ''\" \"%1\"''))"
    by (simp add: classes_key_def prog_id_def open_command_def dquote_def)
  show ?thesis using a b by blast
qed

theorem association_not_wrapped_witness:
  "platform_system conda_windows_world = ''Windows'' \<and>
   environ conda_windows_world ''CONDA_DEFAULT_ENV'' = Some ''envA'' \<and>
   environ conda_windows_world ''CONDA_EXE'' = Some ''conda.exe'' \<and>
   map script (make_shortcut_calls (snd (install conda_windows_world))) =
     [''\"conda.exe\" run -n envA \"C:'' @ backslash @ ''Tools'' @ backslash @ ''moleditpy.exe\"''] \<and>
   value_at [''Software'', ''Classes'', ''MoleditPy.File'', ''shell'', ''open'', ''command'']
     (hkcu (registry (snd (install conda_windows_world))))
     = Some (Some (''\"C:'' @ backslash @ ''Tools'' @ backslash @ ''moleditpy.exe\" \"%1\"''))"
proof -
  have e: "platform_system conda_windows_world = ''Windows''"
    "environ conda_windows_world ''CONDA_DEFAULT_ENV'' = Some ''envA''"
    "environ conda_windows_world ''CONDA_EXE'' = Some ''conda.exe''"
    "make_shortcut_calls conda_windows_world = []"
    by (simp_all add: conda_windows_world_def windows_world_def)
  from association_not_wrapped[OF windows_worlds_found(1) _ e(1,2,3)] e
  show ?thesis by (simp add: backslash_def)
qed

text \<open>
  Claim C7. In every install run on Windows that finds the executable \<open>p\<close>, when
  \<open>make_shortcut\<close> raises an exception with the message \<open>msg\<close>, \<open>install\<close> does not raise:
  no shortcut is recorded, the line \<open>Failed to create shortcut: msg\<close> is printed, and the
  registration of the file associations follows it and writes the open command of \<open>p\<close>.
\<close>

theorem shortcut_failure_not_fatal:
  assumes "fst (find_executable command_name w) = Inr (Some p)" and "p \<noteq> []"
    and "platform_system w = ''Windows''"
    and "\<forall>c. make_shortcut_error w c = Some msg"
  shows "fst (install w) = Inr () \<and>
         shortcuts (snd (install w)) = shortcuts w \<and>
         length (make_shortcut_calls (snd (install w))) = Suc (length (make_shortcut_calls w)) \<and>
         value_at [''Software'', ''Classes'', ''MoleditPy.File'', ''shell'', ''open'', ''command'']
           (hkcu (registry (snd (install w)))) = Some (Some (''\"'' @ p @ ''\" \"%1\"'')) \<and>
         (\<exists>pre. stdout (snd (install w)) =
            pre @ [''Failed to create shortcut: '' @ msg,
                   ''Registering file associations...'',
                   ''  Associated .pmeprj with MoleditPy'',
                   ''  Associated .pmeraw with MoleditPy'',
                   ''File associations registered successfully.'',
                   newline @ ''You can remove the shortcut and file associations by running:'',
                   ''  moleditpy-installer --remove''])"
proof -
  obtain icon s c where i: "install w =
     (Inr (),
      w\<lparr>make_shortcut_calls := make_shortcut_calls w @ [c],
        shortcuts := shortcuts w @ created (make_shortcut_error w c) c,
        registry := registered p icon w,
        stdout := s @
          [shortcut_report (make_shortcut_error w c)
             ''Successfully created 'MoleditPy' in the application menu.''] @
          registration_lines\<rparr>)"
    using install_windows[OF assms(1-3)] by blast
  have m: "make_shortcut_error w c = Some msg" using assms(4) by simp
  have v: "value_at (classes_key prog_id @ [''shell'', ''open'', ''command''])
           (hkcu (registered p icon w)) = Some (Some (open_command p))"
    by (rule registered_command)
  have k: "[''Software'', ''Classes'', ''MoleditPy.File'', ''shell'', ''open'', ''command'']
         = classes_key prog_id @ [''shell'', ''open'', ''command'']"
    by (simp add: classes_key_def prog_id_def)
  have o: "open_command p = ''\"'' @ p @ ''\" \"%1\"''"
    by (simp add: open_command_def dquote_def)
  have out: "stdout (snd (install w)) =
            s @ [''Failed to create shortcut: '' @ msg,
                   ''Registering file associations...'',
                   ''  Associated .pmeprj with MoleditPy'',
                   ''  Associated .pmeraw with MoleditPy'',
                   ''File associations registered successfully.'',
                   newline @ ''You can remove the shortcut and file associations by running:'',
                   ''  moleditpy-installer --remove'']"
    unfolding i by (simp add: m shortcut_report_def registration_lines_def)
  have rest: "fst (install w) = Inr () \<and>
         shortcuts (snd (install w)) = shortcuts w \<and>
         length (make_shortcut_calls (snd (install w))) = Suc (length (make_shortcut_calls w)) \<and>
         value_at [''Software'', ''Classes'', ''MoleditPy.File'', ''shell'', ''open'', ''command'']
           (hkcu (registry (snd (install w)))) = Some (Some (''\"'' @ p @ ''\" \"%1\"''))"
    unfolding i k using v by (simp add: m created_def o)
  show ?thesis using rest out by blast
qed

theorem shortcut_failure_not_fatal_witness:
  "platform_system failing_world = ''Windows'' \<and>
   make_shortcut_error failing_world (menu_shortcut [] None) = Some ''disk full'' \<and>
   fst (install failing_world) = Inr () \<and>
   shortcuts (snd (install failing_world)) = [] \<and>
   value_at [''Software'', ''Classes'', ''MoleditPy.File'', ''shell'', ''open'', ''command'']
     (hkcu (registry (snd (install failing_world))))
     = Some (Some (''\"C:'' @ backslash @ ''Tools'' @ backslash @ ''moleditpy.exe\" \"%1\"''))"
proof -
  have e: "platform_system failing_world = ''Windows''"
    "\<forall>c. make_shortcut_error failing_world c = Some ''disk full''"
    "shortcuts failing_world = []"
    by (simp_all add: failing_world_def windows_world_def)
  from shortcut_failure_not_fatal[OF windows_worlds_found(2) _ e(1,2)] e
  show ?thesis by (simp add: backslash_def)
qed

text \<open>
  Claim C8. In every install run in which \<open>find_executable\<close> returns \<open>None\<close>, \<open>install\<close>
  prints the error message and returns: \<open>make_shortcut\<close> is not called, no shortcut is
  recorded, the registry and the files are as before, and nothing follows the message:
  the search is announced once.
\<close>

theorem install_aborts_when_not_found:
  assumes "fst (find_executable command_name w) = Inr None"
  shows "fst (install w) = Inr () \<and>
         make_shortcut_calls (snd (install w)) = make_shortcut_calls w \<and>
         shortcuts (snd (install w)) = shortcuts w \<and>
         registry (snd (install w)) = registry w \<and>
         files (snd (install w)) = files w \<and>
         (\<exists>pre. stdout (snd (install w)) =
            pre @ [''Searching for the executable 'moleditpy'...'',
                   ''Error: Command 'moleditpy' not found.'',
                   ''Please ensure 'moleditpy' (or 'moleditpy-linux') is installed correctly'',
                   ''and that its location is available.''])"
proof -
  obtain pre where i: "install w = report_not_found (w\<lparr>stdout := pre @ [searching]\<rparr>)"
    using install_not_found[OF assms] by blast
  have out: "stdout (snd (install w)) =
            pre @ [''Searching for the executable 'moleditpy'...'',
                   ''Error: Command 'moleditpy' not found.'',
                   ''Please ensure 'moleditpy' (or 'moleditpy-linux') is installed correctly'',
                   ''and that its location is available.'']"
    unfolding i by (simp add: report_not_found_def bind_io_def print_def searching_def)
  have rest: "fst (install w) = Inr () \<and>
         make_shortcut_calls (snd (install w)) = make_shortcut_calls w \<and>
         shortcuts (snd (install w)) = shortcuts w \<and>
         registry (snd (install w)) = registry w \<and>
         files (snd (install w)) = files w"
    unfolding i by (simp add: report_not_found_def bind_io_def print_def)
  show ?thesis using rest out by blast
qed

theorem install_aborts_when_not_found_witness:
  "fst (find_executable command_name bare_world) = Inr None \<and>
   fst (install bare_world) = Inr () \<and>
   make_shortcut_calls (snd (install bare_world)) = [] \<and>
   shortcuts (snd (install bare_world)) = [] \<and>
   registry (snd (install bare_world)) = no_registry"
proof -
  have h: "fst (find_executable command_name bare_world) = Inr None"
    by (rule find_executable_nowhere) (simp_all add: bare_world_def windows_world_def)
  have e: "make_shortcut_calls bare_world = []" "shortcuts bare_world = []"
    "registry bare_world = no_registry"
    by (simp_all add: bare_world_def windows_world_def)
  from install_aborts_when_not_found[OF h] h e show ?thesis by simp
qed

section \<open>Removal (lines 179-260)\<close>

lemma unregister_no_raise:
  "\<exists>r msgs. unregister_file_associations_windows w =
     (Inr (), w\<lparr>registry := r, stdout := stdout w @ msgs\<rparr>)"
proof (cases "platform_system w = ''Windows''")
  case True
  then show ?thesis using unregister_eval[of w] by blast
next
  case False
  then have "unregister_file_associations_windows w =
      (Inr (), w\<lparr>registry := registry w, stdout := stdout w @ []\<rparr>)"
    by (simp add: unregister_file_associations_windows_def bind_io_def read_world_def return_io_def)
  then show ?thesis by blast
qed

text \<open>
  The place where \<open>remove_shortcut\<close> looks for the shortcut: \<open>None\<close> on a platform it does
  not know, \<open>Some None\<close> on Windows without \<open>APPDATA\<close>.
\<close>

definition windows_place :: "world \<Rightarrow> path" where
  "windows_place w =
     [fmt (environ w ''APPDATA''), ''Microsoft'', ''Windows'', ''Start Menu'', ''Programs'',
      ''MoleditPy.lnk'']"

definition linux_place :: "path \<Rightarrow> path" where
  "linux_place h = h @ [''.local'', ''share'', ''applications'', ''MoleditPy.desktop'']"

definition darwin_place :: "path \<Rightarrow> path" where
  "darwin_place h = h @ [''Desktop'', ''MoleditPy.app'']"

lemma locate_shortcut_windows:
  assumes "platform_system w = ''Windows''"
  shows "\<exists>r msgs. locate_shortcut w =
           (Inr (Some (if truthy (environ w ''APPDATA'') then Some (windows_place w) else None)),
            w\<lparr>registry := r, stdout := stdout w @ msgs\<rparr>)"
proof -
  obtain r msgs where "unregister_file_associations_windows w =
     (Inr (), w\<lparr>registry := r, stdout := stdout w @ msgs\<rparr>)"
    using unregister_no_raise by blast
  then have "locate_shortcut w =
           (Inr (Some (if truthy (environ w ''APPDATA'') then Some (windows_place w) else None)),
            w\<lparr>registry := r, stdout := stdout w @ msgs\<rparr>)"
    using assms
    by (simp add: locate_shortcut_def bind_io_def read_world_def return_io_def windows_place_def)
  then show ?thesis by blast
qed

lemma locate_shortcut_home:
  assumes "home w = Some h"
  shows "platform_system w = ''Linux'' \<Longrightarrow>
           locate_shortcut w = (Inr (Some (Some (linux_place h))), w)"
    and "platform_system w = ''Darwin'' \<Longrightarrow>
           locate_shortcut w = (Inr (Some (Some (darwin_place h))), w)"
  using assms
  by (simp_all add: locate_shortcut_def bind_io_def read_world_def return_io_def path_home_def
        linux_place_def darwin_place_def)

lemma locate_shortcut_homeless:
  assumes "home w = None" and "platform_system w = ''Linux'' \<or> platform_system w = ''Darwin''"
  shows "locate_shortcut w = (Inl (RuntimeError, ''Could not determine home directory.''), w)"
  using assms
  by (auto simp: locate_shortcut_def bind_io_def read_world_def return_io_def path_home_def)



lemma path_exists_denied:
  assumes "stat_error w p = Some msg"
  shows "path_exists p w = (Inl (PermissionError, msg), w)"
  using assms by (simp add: path_exists_def path_stat_def bind_io_def)



lemma delete_shortcut_denied:
  assumes "stat_error w p = Some msg"
  shows "delete_shortcut (Some p) w = (Inl (PermissionError, msg), w)"
  using assms
  by (simp add: delete_shortcut_def bind_io_def[of "read_world _"] bind_io_def[of "path_exists _"]
        read_world_def path_exists_denied)



text \<open>
  The two reads of \<open>remove_shortcut\<close> that stand outside every \<open>try\<close> succeed: on Linux and
  macOS the home directory can be determined (lines 236, 243), and the place of the
  shortcut on this platform can be examined (line 250).
\<close>

definition shortcut_examinable :: "world \<Rightarrow> bool" where
  "shortcut_examinable w =
     (if platform_system w = ''Windows''
      then \<not> truthy (environ w ''APPDATA'') \<or> stat_error w (windows_place w) = None
      else if platform_system w = ''Linux''
      then (case home w of None \<Rightarrow> False | Some h \<Rightarrow> stat_error w (linux_place h) = None)
      else if platform_system w = ''Darwin''
      then (case home w of None \<Rightarrow> False | Some h \<Rightarrow> stat_error w (darwin_place h) = None)
      else True)"






lemma remove_shortcut_raises:
  assumes "\<not> shortcut_examinable w"
  shows "\<exists>e. fst (remove_shortcut w) = Inl e"
proof -
  consider (windows) "platform_system w = ''Windows''"
    | (linux) "platform_system w = ''Linux''"
    | (darwin) "platform_system w = ''Darwin''"
    using assms by (auto simp: shortcut_examinable_def split: if_splits)
  then show ?thesis
  proof cases
    case windows
    then obtain msg where t: "truthy (environ w ''APPDATA'')"
      and d: "stat_error w (windows_place w) = Some msg"
      using assms by (auto simp: shortcut_examinable_def)
    obtain r msgs where l: "locate_shortcut w =
           (Inr (Some (Some (windows_place w))), w\<lparr>registry := r, stdout := stdout w @ msgs\<rparr>)"
      using locate_shortcut_windows[OF windows] t by auto
    have "stat_error (w\<lparr>registry := r, stdout := stdout w @ msgs\<rparr>) (windows_place w) = Some msg"
      using d by simp
    from delete_shortcut_denied[OF this] show ?thesis
      unfolding remove_shortcut_def bind_io_def l by simp
  next
    case linux
    show ?thesis
    proof (cases "home w")
      case None
      show ?thesis
        unfolding remove_shortcut_def bind_io_def
          locate_shortcut_homeless[OF None disjI1[OF linux]] by simp
    next
      case (Some h)
      then obtain msg where "stat_error w (linux_place h) = Some msg"
        using assms linux by (auto simp: shortcut_examinable_def)
      from delete_shortcut_denied[OF this] show ?thesis
        unfolding remove_shortcut_def bind_io_def locate_shortcut_home(1)[OF Some linux] by simp
    qed
  next
    case darwin
    show ?thesis
    proof (cases "home w")
      case None
      show ?thesis
        unfolding remove_shortcut_def bind_io_def
          locate_shortcut_homeless[OF None disjI2[OF darwin]] by simp
    next
      case (Some h)
      then obtain msg where "stat_error w (darwin_place h) = Some msg"
        using assms darwin by (auto simp: shortcut_examinable_def)
      from delete_shortcut_denied[OF this] show ?thesis
        unfolding remove_shortcut_def bind_io_def locate_shortcut_home(2)[OF Some darwin] by simp
    qed
  qed
qed






section \<open>The exit status (lines 361-375)\<close>






lemma main_remove_raises:
  assumes "\<not> shortcut_examinable w"
  shows "exit_status (main True w) = 1"
proof -
  obtain e where "fst (remove_shortcut w) = Inl e"
    using remove_shortcut_raises[OF assms] by blast
  then obtain w' where "remove_shortcut w = (Inl e, w')"
    by (metis prod.collapse)
  then show ?thesis by (simp add: main_def bind_io_def exit_status_def)
qed







end
